theory Spec2Isabelle
  imports Complex_Main "HOL-Library.Multiset"
begin

section \<open>Scoring and ranking pipeline of chrome-ext-scout\<close>

text \<open>
  The pipeline is written as PostgreSQL common table expressions inside
  \<^verbatim>\<open>getOpportunitiesData\<close> and \<^verbatim>\<open>getCategoryExplorerData\<close>, fed by
  \<^verbatim>\<open>parseGlobalFilters\<close>.  Each CTE becomes a function from lists of rows to lists of
  rows and keeps the CTE's name.  \<^verbatim>\<open>double precision\<close> and \<^verbatim>\<open>numeric\<close> columns and
  JavaScript numbers are modelled by \<^typ>\<open>real\<close> (exact arithmetic), SQL \<^verbatim>\<open>NULL\<close> by
  \<^typ>\<open>'a option\<close>.  The columns \<^verbatim>\<open>users\<close> and \<^verbatim>\<open>rating_votes\<close> are absolute
  counts and are modelled by \<^typ>\<open>nat\<close>; the primary keys of the three tables are unique,
  and ids are below \<open>2^53\<close>, so that \<^verbatim>\<open>Number\<close> does not round them.
\<close>

subsection \<open>Strings\<close>

text \<open>
  A string of JavaScript or of the database is the list of its Unicode code points.
  \<open>ascii\<close> turns a literal of the sources into such a list.
\<close>

type_synonym ustring = "nat list"

definition ascii :: "string \<Rightarrow> ustring" where
  "ascii s = map of_char s"

subsection \<open>Tables of the snapshot\<close>

record extension =
  e_id :: int
  e_name :: ustring
  e_canonical_url :: "ustring option"
  e_users :: "nat option"
  e_rating :: "real option"
  e_rating_votes :: "nat option"
  e_languages :: "ustring option"
  e_updated_at :: "ustring option"

record category =
  cat_id :: int
  cat_name :: ustring

record category_extension =
  ce_category_id :: int
  ce_extension_id :: int

record snapshot =
  extensions :: "extension list"
  categories :: "category list"
  category_extensions :: "category_extension list"

subsection \<open>Filter parsing (\<^verbatim>\<open>parseGlobalFilters\<close>)\<close>

record GlobalFilters =
  minUsers :: real
  maxUsers :: "real option"
  ratingMin :: real
  ratingMax :: real
  excludeTopPct :: real
  lang :: ustring
  extName :: ustring

text \<open>
  The result of JavaScript's \<^verbatim>\<open>Number(string)\<close>.  The conversion itself is a built-in
  and is a parameter of the parser below.
\<close>

datatype js_number = Finite real | NaN | PosInfinity | NegInfinity

datatype zod_error = ZodError

text \<open>
  \<^verbatim>\<open>String.prototype.trim\<close> removes the white space and the line terminators of
  ECMAScript from both ends: TAB, LF, VT, FF, CR, SPACE, NO-BREAK SPACE, U+1680,
  U+2000 to U+200A, U+2028, U+2029, U+202F, U+205F, U+3000 and U+FEFF.
\<close>

definition is_space :: "nat \<Rightarrow> bool" where
  "is_space c =
     (c \<in> set [0x09, 0x0A, 0x0B, 0x0C, 0x0D, 0x20, 0xA0, 0x1680, 0x2028, 0x2029, 0x202F,
                0x205F, 0x3000, 0xFEFF]
      \<or> (0x2000 \<le> c \<and> c \<le> 0x200A))"

definition trim :: "ustring \<Rightarrow> ustring" where
  "trim s = rev (dropWhile is_space (rev (dropWhile is_space s)))"

definition parseNumber :: "(ustring \<Rightarrow> js_number) \<Rightarrow> ustring option \<Rightarrow> real option" where
  "parseNumber Number value =
     (case value of
        None \<Rightarrow> None
      | Some v \<Rightarrow>
          (let trimmed = trim v in
           if length trimmed = 0 then None
           else (case Number trimmed of Finite parsed \<Rightarrow> Some parsed | _ \<Rightarrow> None)))"

definition clamp :: "real \<Rightarrow> real \<Rightarrow> real \<Rightarrow> real" where
  "clamp value mn mx = min (max value mn) mx"

definition Math_floor :: "real \<Rightarrow> real" where
  "Math_floor x = of_int \<lfloor>x\<rfloor>"

definition Number_isInteger :: "real \<Rightarrow> bool" where
  "Number_isInteger x = (of_int \<lfloor>x\<rfloor> = x)"

text \<open>
  \<^verbatim>\<open>globalFiltersSchema\<close>: \<^verbatim>\<open>int().min(0)\<close>, \<^verbatim>\<open>int().min(0).nullable()\<close>,
  \<^verbatim>\<open>min(0).max(5)\<close> twice, \<^verbatim>\<open>int().min(0).max(50)\<close>, two strings.  \<^verbatim>\<open>parse\<close> throws
  a \<^verbatim>\<open>ZodError\<close> when a check fails.  The check \<^verbatim>\<open>int()\<close> accepts the safe integers:
  the integers from \<open>- (2^53 - 1)\<close> to \<open>2^53 - 1\<close>.
\<close>

definition MAX_SAFE_INTEGER :: real where
  "MAX_SAFE_INTEGER = 9007199254740991"

definition zod_int :: "real \<Rightarrow> bool" where
  "zod_int x = (Number_isInteger x \<and> - MAX_SAFE_INTEGER \<le> x \<and> x \<le> MAX_SAFE_INTEGER)"

definition globalFiltersSchema :: "GlobalFilters \<Rightarrow> bool" where
  "globalFiltersSchema f =
     (zod_int (minUsers f) \<and> 0 \<le> minUsers f
      \<and> (case maxUsers f of None \<Rightarrow> True | Some m \<Rightarrow> zod_int m \<and> 0 \<le> m)
      \<and> 0 \<le> ratingMin f \<and> ratingMin f \<le> 5
      \<and> 0 \<le> ratingMax f \<and> ratingMax f \<le> 5
      \<and> zod_int (excludeTopPct f) \<and> 0 \<le> excludeTopPct f \<and> excludeTopPct f \<le> 50)"

definition globalFiltersSchema_parse :: "GlobalFilters \<Rightarrow> zod_error + GlobalFilters" where
  "globalFiltersSchema_parse f = (if globalFiltersSchema f then Inr f else Inl ZodError)"

definition get_or_empty :: "ustring option \<Rightarrow> ustring" where
  "get_or_empty v = (case v of None \<Rightarrow> [] | Some s \<Rightarrow> s)"

definition parseGlobalFilters ::
  "(ustring \<Rightarrow> js_number) \<Rightarrow> (string \<Rightarrow> ustring option) \<Rightarrow> zod_error + GlobalFilters" where
  "parseGlobalFilters Number searchParams =
     (let minUsersRaw = parseNumber Number (searchParams ''minUsers'');
          maxUsersRaw = parseNumber Number (searchParams ''maxUsers'');
          ratingMinRaw = parseNumber Number (searchParams ''ratingMin'');
          ratingMaxRaw = parseNumber Number (searchParams ''ratingMax'');
          excludeTopPctRaw = parseNumber Number (searchParams ''excludeTopPct'');
          minUsers0 = (case minUsersRaw of None \<Rightarrow> 0
                       | Some x \<Rightarrow> if x \<ge> 0 then Math_floor x else 0);
          maxUsers0 = (case maxUsersRaw of None \<Rightarrow> None
                       | Some x \<Rightarrow> if x \<ge> 0 then Some (Math_floor x) else None);
          ratingMin0 = (case ratingMinRaw of None \<Rightarrow> 0 | Some x \<Rightarrow> clamp x 0 5);
          ratingMax0 = (case ratingMaxRaw of None \<Rightarrow> 5 | Some x \<Rightarrow> clamp x 0 5);
          inverted = (ratingMin0 > ratingMax0);
          ratingMin1 = (if inverted then 0 else ratingMin0);
          ratingMax1 = (if inverted then 5 else ratingMax0);
          maxUsers1 = (case maxUsers0 of None \<Rightarrow> None
                       | Some m \<Rightarrow> if m < minUsers0 then None else Some m);
          excludeTopPct0 = (case excludeTopPctRaw of None \<Rightarrow> 0
                            | Some x \<Rightarrow> if Number_isInteger x then clamp x 0 50 else 0)
      in globalFiltersSchema_parse
           \<lparr>minUsers = minUsers0, maxUsers = maxUsers1,
            ratingMin = ratingMin1, ratingMax = ratingMax1,
            excludeTopPct = excludeTopPct0,
            lang = trim (get_or_empty (searchParams ''lang'')),
            extName = trim (get_or_empty (searchParams ''extName''))\<rparr>)"

subsection \<open>Record Filter and Top-Slice Excluder\<close>

text \<open>Rows of \<^verbatim>\<open>extensions_base\<close>; \<^verbatim>\<open>filtered_extensions\<close> keeps a projection of them.\<close>

record base_row =
  b_extension_id :: int
  b_extension_name :: ustring
  b_extension_url :: "ustring option"
  b_users :: real
  b_rating :: "real option"
  b_rating_votes :: real
  b_languages :: ustring

definition base_of :: "extension \<Rightarrow> base_row" where
  "base_of e =
     \<lparr>b_extension_id = e_id e, b_extension_name = e_name e,
      b_extension_url = e_canonical_url e,
      b_users = (case e_users e of None \<Rightarrow> 0 | Some u \<Rightarrow> real u),
      b_rating = e_rating e,
      b_rating_votes = (case e_rating_votes e of None \<Rightarrow> 0 | Some v \<Rightarrow> real v),
      b_languages = (case e_languages e of None \<Rightarrow> [] | Some l \<Rightarrow> l)\<rparr>"

definition extensions_base :: "extension list \<Rightarrow> base_row list" where
  "extensions_base es = map base_of es"

text \<open>\<^verbatim>\<open>order by\<close> over a key on which rows do not tie: insertion into a sorted list.\<close>

fun insert_by :: "('a \<Rightarrow> 'a \<Rightarrow> bool) \<Rightarrow> 'a \<Rightarrow> 'a list \<Rightarrow> 'a list" where
  "insert_by le x [] = [x]"
| "insert_by le x (y # ys) = (if le x y then x # y # ys else y # insert_by le x ys)"

definition order_by :: "('a \<Rightarrow> 'a \<Rightarrow> bool) \<Rightarrow> 'a list \<Rightarrow> 'a list" where
  "order_by le xs = foldr (insert_by le) xs []"

text \<open>\<^verbatim>\<open>order by b.users desc, b.extension_id asc\<close>\<close>

definition users_desc_id_asc :: "base_row \<Rightarrow> base_row \<Rightarrow> bool" where
  "users_desc_id_asc a b =
     (b_users a > b_users b \<or> (b_users a = b_users b \<and> b_extension_id a \<le> b_extension_id b))"

text \<open>
  \<^verbatim>\<open>case when pct <= 0 then 0 else ceil(count(*)::numeric * (pct::numeric / 100.0))::int end\<close>,
  the count being taken over \<^verbatim>\<open>extensions_base\<close>.
\<close>

definition top_excluded_limit :: "real \<Rightarrow> nat \<Rightarrow> int" where
  "top_excluded_limit pct n = (if pct \<le> 0 then 0 else \<lceil>real n * (pct / 100)\<rceil>)"

definition top_excluded :: "GlobalFilters \<Rightarrow> base_row list \<Rightarrow> int list" where
  "top_excluded f base =
     map b_extension_id
       (take (nat (top_excluded_limit (excludeTopPct f) (length base)))
          (order_by users_desc_id_asc base))"

text \<open>
  PostgreSQL's \<^verbatim>\<open>ILIKE\<close>: \<^verbatim>\<open>%\<close> matches any run of characters, \<^verbatim>\<open>_\<close> one character, a
  backslash quotes the next pattern character; letters compare without case (ASCII).  The
  patterns of the filter end in \<^verbatim>\<open>%\<close>, so none ends in an unquoted backslash.  The code points
  of \<^verbatim>\<open>%\<close>, \<^verbatim>\<open>_\<close> and the backslash are 37, 95 and 92.
\<close>

definition lower_char :: "nat \<Rightarrow> nat" where
  "lower_char c = (if 65 \<le> c \<and> c \<le> 90 then c + 32 else c)"

fun ilike :: "ustring \<Rightarrow> ustring \<Rightarrow> bool" where
  "ilike s [] = (s = [])"
| "ilike [] (p # ps) = (p = 37 \<and> ilike [] ps)"
| "ilike (c # cs) (p # ps) =
     (if p = 37 then ilike (c # cs) ps \<or> ilike cs (p # ps)
      else if p = 95 then ilike cs ps
      else if p = 92 then
        (case ps of [] \<Rightarrow> False | q # qs \<Rightarrow> lower_char q = lower_char c \<and> ilike cs qs)
      else lower_char p = lower_char c \<and> ilike cs ps)"

definition passes_filters :: "GlobalFilters \<Rightarrow> base_row \<Rightarrow> bool" where
  "passes_filters f b =
     (b_users b \<ge> minUsers f
      \<and> (case maxUsers f of None \<Rightarrow> True | Some m \<Rightarrow> b_users b \<le> m)
      \<and> (case b_rating b of None \<Rightarrow> False
          | Some r \<Rightarrow> r \<ge> ratingMin f \<and> r \<le> ratingMax f)
      \<and> (lang f = [] \<or> ilike (b_languages b) (ascii ''%'' @ lang f @ ascii ''%''))
      \<and> (extName f = [] \<or> ilike (b_extension_name b) (ascii ''%'' @ extName f @ ascii ''%'')))"

text \<open>
  \<^verbatim>\<open>from extensions_base b left join top_excluded te on te.extension_id = b.extension_id
  where te.extension_id is null and ...\<close>
\<close>

definition filtered_extensions :: "GlobalFilters \<Rightarrow> base_row list \<Rightarrow> base_row list" where
  "filtered_extensions f base =
     filter (\<lambda>b. b_extension_id b \<notin> set (top_excluded f base) \<and> passes_filters f b) base"

text \<open>
  The Top-Slice Excluder as the specification words it: the slice is cut from the filtered
  set, whose size is \<open>N\<close>.  Used only for comparison with \<^const>\<open>filtered_extensions\<close>.
\<close>

definition spec_top_slice_excluder :: "GlobalFilters \<Rightarrow> base_row list \<Rightarrow> base_row list" where
  "spec_top_slice_excluder f base =
     (let filtered = filter (passes_filters f) base in
      drop (nat \<lceil>real (length filtered) * excludeTopPct f / 100\<rceil>)
        (order_by users_desc_id_asc filtered))"

text \<open>The snapshot without the extensions that \<^const>\<open>top_excluded\<close> names.\<close>

definition without_top_excluded :: "snapshot \<Rightarrow> GlobalFilters \<Rightarrow> snapshot" where
  "without_top_excluded snap f =
     snap\<lparr>extensions :=
       filter (\<lambda>e. e_id e \<notin> set (top_excluded f (extensions_base (extensions snap))))
         (extensions snap)\<rparr>"

subsection \<open>Configuration constants\<close>

text \<open>
  \<^verbatim>\<open>src/lib/opportunities/constants.ts\<close> and \<^verbatim>\<open>src/lib/pagination/constants.ts\<close> are
  imported by the query module; the pipeline takes their values as a record.
\<close>

record constants =
  OPPORTUNITIES_BAYES_PRIOR_WEIGHT :: real
  OPPORTUNITIES_USERS_P95 :: real
  OPPORTUNITIES_VOTES_P95 :: real
  OPPORTUNITIES_COMPETITION_P95 :: real
  OPPORTUNITIES_GAP_CAP_P90 :: real
  OPPORTUNITIES_SCORE_DEMAND_WEIGHT :: real
  OPPORTUNITIES_SCORE_GAP_WEIGHT :: real
  OPPORTUNITIES_SCORE_INVERSE_COMPETITION_WEIGHT :: real
  OPPORTUNITIES_SCORE_SCALE :: real
  DEFAULT_TABLE_PAGE_SIZE :: int

text \<open>
  Modelled from the spec: the file \<^verbatim>\<open>src/lib/opportunities/constants.ts\<close> with the values of
  the constants.  The specification gives prior weight \<open>K = 5000\<close> (the literal of the market
  and category queries), percentile thresholds 0.95 and 0.90, weights 0.45, 0.35, 0.20 and
  scale 100 (also the formula of the README); the page size 20 is the one of its pagination
  scenario.
\<close>

definition default_constants :: constants where
  "default_constants =
     \<lparr>OPPORTUNITIES_BAYES_PRIOR_WEIGHT = 5000,
      OPPORTUNITIES_USERS_P95 = 95 / 100,
      OPPORTUNITIES_VOTES_P95 = 95 / 100,
      OPPORTUNITIES_COMPETITION_P95 = 95 / 100,
      OPPORTUNITIES_GAP_CAP_P90 = 90 / 100,
      OPPORTUNITIES_SCORE_DEMAND_WEIGHT = 45 / 100,
      OPPORTUNITIES_SCORE_GAP_WEIGHT = 35 / 100,
      OPPORTUNITIES_SCORE_INVERSE_COMPETITION_WEIGHT = 20 / 100,
      OPPORTUNITIES_SCORE_SCALE = 100,
      DEFAULT_TABLE_PAGE_SIZE = 20\<rparr>"

subsection \<open>Global Rating Aggregator\<close>

text \<open>
  \<^verbatim>\<open>coalesce(sum(fe.rating * fe.rating_votes) filter (where fe.rating_votes > 0), 0)\<close> and
  \<^verbatim>\<open>coalesce(sum(fe.rating_votes) filter (where fe.rating_votes > 0), 0)\<close>; a \<^verbatim>\<open>NULL\<close>
  product is skipped by \<^verbatim>\<open>sum\<close>.
\<close>

definition rating_times_votes :: "base_row \<Rightarrow> real" where
  "rating_times_votes r = (case b_rating r of None \<Rightarrow> 0 | Some x \<Rightarrow> x * b_rating_votes r)"

definition weighted_sum_of :: "base_row list \<Rightarrow> real" where
  "weighted_sum_of rs = sum_list (map rating_times_votes (filter (\<lambda>r. b_rating_votes r > 0) rs))"

definition weight_sum_of :: "base_row list \<Rightarrow> real" where
  "weight_sum_of rs =
     sum_list (map b_rating_votes
       (filter (\<lambda>r. b_rating r \<noteq> None \<and> b_rating_votes r > 0) rs))"

definition global_weight_sum_of :: "base_row list \<Rightarrow> real" where
  "global_weight_sum_of rs = sum_list (map b_rating_votes (filter (\<lambda>r. b_rating_votes r > 0) rs))"

definition global_weighted :: "base_row list \<Rightarrow> real \<times> real" where
  "global_weighted fe = (weighted_sum_of fe, global_weight_sum_of fe)"

definition global_rating :: "base_row list \<Rightarrow> real" where
  "global_rating fe =
     (case global_weighted fe of
        (weighted_sum, weight_sum) \<Rightarrow> if weight_sum > 0 then weighted_sum / weight_sum else 0)"

subsection \<open>Category Aggregator\<close>

record category_aggregate =
  ca_category_id :: int
  ca_category_name :: ustring
  ca_competition_count :: int
  ca_rating_weighted_sum :: real
  ca_rating_weight_sum :: real

text \<open>
  The rows of \<^verbatim>\<open>filtered_extensions\<close> that the two joins attach to one category:
  \<^verbatim>\<open>category_extensions ce on ce.category_id = c.id\<close>, then
  \<^verbatim>\<open>filtered_extensions fe on fe.extension_id = ce.extension_id\<close>.
\<close>

definition category_members ::
  "category_extension list \<Rightarrow> base_row list \<Rightarrow> int \<Rightarrow> base_row list" where
  "category_members links fe cid =
     concat (map (\<lambda>ce. filter (\<lambda>r. b_extension_id r = ce_extension_id ce) fe)
                 (filter (\<lambda>ce. ce_category_id ce = cid) links))"

definition count_distinct :: "int list \<Rightarrow> int" where
  "count_distinct xs = int (length (remdups xs))"

definition category_aggregates ::
  "category list \<Rightarrow> category_extension list \<Rightarrow> base_row list \<Rightarrow> category_aggregate list" where
  "category_aggregates cats links fe =
     map (\<lambda>c. let ms = category_members links fe (cat_id c) in
              \<lparr>ca_category_id = cat_id c, ca_category_name = cat_name c,
               ca_competition_count = count_distinct (map b_extension_id ms),
               ca_rating_weighted_sum = weighted_sum_of ms,
               ca_rating_weight_sum = weight_sum_of ms\<rparr>) cats"

text \<open>The Bayesian-smoothed average of \<^verbatim>\<open>category_scores\<close> and \<^verbatim>\<open>category_stats\<close>.\<close>

definition bayes_avg :: "real \<Rightarrow> real \<Rightarrow> real \<Rightarrow> real \<Rightarrow> real" where
  "bayes_avg K rating_weighted_sum rating_weight_sum c_rating =
     (if rating_weight_sum > 0 then
        (rating_weight_sum / (rating_weight_sum + K)) * (rating_weighted_sum / rating_weight_sum)
        + (K / (rating_weight_sum + K)) * c_rating
      else c_rating)"

record category_score =
  cs_category_id :: int
  cs_category_name :: ustring
  cs_competition_count :: int
  cs_category_avg_rating :: real

definition category_scores ::
  "constants \<Rightarrow> category_aggregate list \<Rightarrow> real \<Rightarrow> category_score list" where
  "category_scores k cas c_rating =
     map (\<lambda>ca. \<lparr>cs_category_id = ca_category_id ca, cs_category_name = ca_category_name ca,
                cs_competition_count = ca_competition_count ca,
                cs_category_avg_rating =
                  bayes_avg (OPPORTUNITIES_BAYES_PRIOR_WEIGHT k) (ca_rating_weighted_sum ca)
                    (ca_rating_weight_sum ca) c_rating\<rparr>)
         (filter (\<lambda>ca. ca_competition_count ca > 0) cas)"

subsection \<open>Candidate set\<close>

record candidate_row =
  c_category_id :: int
  c_category_name :: ustring
  c_extension_id :: int
  c_extension_name :: ustring
  c_extension_url :: "ustring option"
  c_users :: real
  c_rating :: "real option"
  c_rating_votes :: real
  c_category_avg_rating :: real
  c_competition_count :: int
  c_rating_gap :: real

text \<open>
  \<^verbatim>\<open>greatest(cs.category_avg_rating - fe.rating, 0)\<close>; \<^verbatim>\<open>greatest\<close> skips a \<^verbatim>\<open>NULL\<close>
  argument.
\<close>

definition greatest_gap :: "real \<Rightarrow> real option \<Rightarrow> real" where
  "greatest_gap avg r = (case r of None \<Rightarrow> 0 | Some x \<Rightarrow> max (avg - x) 0)"

definition candidate_of :: "base_row \<Rightarrow> category_score \<Rightarrow> candidate_row" where
  "candidate_of fe cs =
     \<lparr>c_category_id = cs_category_id cs, c_category_name = cs_category_name cs,
      c_extension_id = b_extension_id fe, c_extension_name = b_extension_name fe,
      c_extension_url = b_extension_url fe, c_users = b_users fe, c_rating = b_rating fe,
      c_rating_votes = b_rating_votes fe,
      c_category_avg_rating = cs_category_avg_rating cs,
      c_competition_count = cs_competition_count cs,
      c_rating_gap = greatest_gap (cs_category_avg_rating cs) (b_rating fe)\<rparr>"

definition candidate_set ::
  "base_row list \<Rightarrow> category_extension list \<Rightarrow> category_score list \<Rightarrow> candidate_row list" where
  "candidate_set fes links css =
     concat (map (\<lambda>fe.
       concat (map (\<lambda>ce. map (candidate_of fe)
                            (filter (\<lambda>cs. cs_category_id cs = ce_category_id ce) css))
                   (filter (\<lambda>ce. ce_extension_id ce = b_extension_id fe) links))) fes)"

subsection \<open>Distribution Calculator\<close>

text \<open>
  \<^verbatim>\<open>percentile_cont(p) within group (order by x)\<close>: linear interpolation between the rows
  \<open>\<lfloor>p (N - 1)\<rfloor>\<close> and \<open>\<lceil>p (N - 1)\<rceil>\<close> of the sorted input, \<^verbatim>\<open>NULL\<close> on no input.
\<close>

definition percentile_cont :: "real \<Rightarrow> real list \<Rightarrow> real option" where
  "percentile_cont p xs =
     (if xs = [] then None
      else (let s = sort xs; rn = p * (real (length s) - 1);
                lo = nat \<lfloor>rn\<rfloor>; hi = nat \<lceil>rn\<rceil>
            in Some (if lo = hi then s ! lo
                     else s ! lo + (rn - real lo) * (s ! hi - s ! lo))))"

record distribution_row =
  p95_users :: "real option"
  p95_votes :: "real option"
  p95_competition_count :: "real option"
  gap_cap :: "real option"

definition distribution :: "constants \<Rightarrow> candidate_row list \<Rightarrow> category_score list \<Rightarrow> distribution_row" where
  "distribution k cands css =
     \<lparr>p95_users = percentile_cont (OPPORTUNITIES_USERS_P95 k) (map c_users cands),
      p95_votes = percentile_cont (OPPORTUNITIES_VOTES_P95 k) (map c_rating_votes cands),
      p95_competition_count =
        percentile_cont (OPPORTUNITIES_COMPETITION_P95 k)
          (map (\<lambda>cs. real_of_int (cs_competition_count cs)) css),
      gap_cap = percentile_cont (OPPORTUNITIES_GAP_CAP_P90 k) (map c_rating_gap cands)\<rparr>"

subsection \<open>Normalizer\<close>

text \<open>
  \<^verbatim>\<open>case when coalesce(p, 0) > 0 then least(greatest(ln(v + 1) / ln(p + 1), 0), 1) else 0 end\<close>
\<close>

definition log_norm :: "real \<Rightarrow> real option \<Rightarrow> real" where
  "log_norm v p =
     (case p of
        None \<Rightarrow> 0
      | Some q \<Rightarrow> if q > 0 then min (max (ln (v + 1) / ln (q + 1)) 0) 1 else 0)"

text \<open>
  \<^verbatim>\<open>case when coalesce(d.gap_cap, 0) > 0 then least(greatest(c.rating_gap / d.gap_cap, 0), 1)
  else 0 end\<close>
\<close>

definition rating_gap_norm :: "real \<Rightarrow> real option \<Rightarrow> real" where
  "rating_gap_norm g cap =
     (case cap of
        None \<Rightarrow> 0
      | Some q \<Rightarrow> if q > 0 then min (max (g / q) 0) 1 else 0)"

record normalized_row = candidate_row +
  n_demand_norm :: real
  n_competition_norm :: real
  n_rating_gap_norm :: real
  n_confidence_norm :: real

definition normalized_of :: "distribution_row \<Rightarrow> candidate_row \<Rightarrow> normalized_row" where
  "normalized_of d c =
     candidate_row.extend c
       \<lparr>n_demand_norm = log_norm (c_users c) (p95_users d),
        n_competition_norm = log_norm (real_of_int (c_competition_count c)) (p95_competition_count d),
        n_rating_gap_norm = rating_gap_norm (c_rating_gap c) (gap_cap d),
        n_confidence_norm = log_norm (c_rating_votes c) (p95_votes d)\<rparr>"

definition normalized :: "distribution_row \<Rightarrow> candidate_row list \<Rightarrow> normalized_row list" where
  "normalized d cands = map (normalized_of d) cands"

subsection \<open>Scorer (CTE \<^verbatim>\<open>final\<close>)\<close>

record OpportunityPoint =
  category_id :: int
  category_name :: ustring
  extension_id :: int
  extension_name :: ustring
  extension_url :: "ustring option"
  users :: real
  rating :: "real option"
  rating_votes :: real
  category_avg_rating :: real
  competition_count :: int
  demand_norm :: real
  competition_norm :: real
  rating_gap :: real
  confidence_norm :: real
  gap_effective :: real
  score :: real

definition final_of :: "constants \<Rightarrow> normalized_row \<Rightarrow> OpportunityPoint" where
  "final_of k n =
     \<lparr>category_id = c_category_id n, category_name = c_category_name n,
      extension_id = c_extension_id n, extension_name = c_extension_name n,
      extension_url = c_extension_url n, users = c_users n, rating = c_rating n,
      rating_votes = c_rating_votes n, category_avg_rating = c_category_avg_rating n,
      competition_count = c_competition_count n,
      demand_norm = n_demand_norm n, competition_norm = n_competition_norm n,
      rating_gap = c_rating_gap n, confidence_norm = n_confidence_norm n,
      gap_effective = n_rating_gap_norm n * n_confidence_norm n,
      score =
        OPPORTUNITIES_SCORE_SCALE k *
          (OPPORTUNITIES_SCORE_DEMAND_WEIGHT k * n_demand_norm n
           + OPPORTUNITIES_SCORE_GAP_WEIGHT k * (n_rating_gap_norm n * n_confidence_norm n)
           + OPPORTUNITIES_SCORE_INVERSE_COMPETITION_WEIGHT k * (1 - n_competition_norm n))\<rparr>"

text \<open>The CTE chain of \<^verbatim>\<open>baseCte\<close>, stage by stage.\<close>

definition pipeline_filtered :: "snapshot \<Rightarrow> GlobalFilters \<Rightarrow> base_row list" where
  "pipeline_filtered snap f = filtered_extensions f (extensions_base (extensions snap))"

definition scores_from :: "constants \<Rightarrow> snapshot \<Rightarrow> base_row list \<Rightarrow> category_score list" where
  "scores_from k snap fe =
     category_scores k (category_aggregates (categories snap) (category_extensions snap) fe)
       (global_rating fe)"

definition candidates_from :: "constants \<Rightarrow> snapshot \<Rightarrow> base_row list \<Rightarrow> candidate_row list" where
  "candidates_from k snap fe = candidate_set fe (category_extensions snap) (scores_from k snap fe)"

definition distribution_from :: "constants \<Rightarrow> snapshot \<Rightarrow> base_row list \<Rightarrow> distribution_row" where
  "distribution_from k snap fe = distribution k (candidates_from k snap fe) (scores_from k snap fe)"

definition normalized_from :: "constants \<Rightarrow> snapshot \<Rightarrow> base_row list \<Rightarrow> normalized_row list" where
  "normalized_from k snap fe = normalized (distribution_from k snap fe) (candidates_from k snap fe)"

definition final_from :: "constants \<Rightarrow> snapshot \<Rightarrow> base_row list \<Rightarrow> OpportunityPoint list" where
  "final_from k snap fe = map (final_of k) (normalized_from k snap fe)"

definition final :: "constants \<Rightarrow> snapshot \<Rightarrow> GlobalFilters \<Rightarrow> OpportunityPoint list" where
  "final k snap f = final_from k snap (pipeline_filtered snap f)"

subsection \<open>Ranker and paginator (\<^verbatim>\<open>buildOrderByClause\<close>, \<^verbatim>\<open>getOpportunitiesData\<close>)\<close>

datatype sort_key = By_score | By_users | By_rating_gap | By_competition_count

datatype sort_dir = Asc | Desc

record OpportunitiesParams =
  page :: int
  limit :: int
  sortBy :: sort_key
  sortDir :: sort_dir

type_synonym 'a order_by_clause = "(('a \<Rightarrow> real) \<times> sort_dir) list"

definition buildOrderByClause :: "OpportunitiesParams \<Rightarrow> OpportunityPoint order_by_clause" where
  "buildOrderByClause params =
     (let direction = (if sortDir params = Asc then Asc else Desc) in
      case sortBy params of
        By_users \<Rightarrow>
          [(users, direction), (score, Desc), (rating_votes, Desc),
           (\<lambda>r. real_of_int (extension_id r), Asc)]
      | By_rating_gap \<Rightarrow>
          [(rating_gap, direction), (score, Desc), (users, Desc),
           (\<lambda>r. real_of_int (extension_id r), Asc)]
      | By_competition_count \<Rightarrow>
          [(\<lambda>r. real_of_int (competition_count r), direction), (score, Desc), (users, Desc),
           (\<lambda>r. real_of_int (extension_id r), Asc)]
      | By_score \<Rightarrow>
          [(score, direction), (users, Desc), (rating_votes, Desc),
           (\<lambda>r. real_of_int (extension_id r), Asc)])"

text \<open>
  \<open>precedes ob a b\<close>: the clause \<open>ob\<close> allows row \<open>a\<close> to be returned before row \<open>b\<close>.  Rows
  that agree on every expression of the clause may come in either order.
\<close>

fun precedes :: "'a order_by_clause \<Rightarrow> 'a \<Rightarrow> 'a \<Rightarrow> bool" where
  "precedes [] a b = True"
| "precedes ((k, d) # ks) a b =
     (if k a = k b then precedes ks a b
      else (case d of Asc \<Rightarrow> k a < k b | Desc \<Rightarrow> k a > k b))"

text \<open>
  What the database may answer to \<^verbatim>\<open>select * from rows order by ob\<close>: the same rows, in an
  order the clause allows.
\<close>

definition is_ordered_by :: "'a order_by_clause \<Rightarrow> 'a list \<Rightarrow> 'a list \<Rightarrow> bool" where
  "is_ordered_by ob rows out = (mset out = mset rows \<and> sorted_wrt (precedes ob) out)"

definition ranked ::
  "constants \<Rightarrow> snapshot \<Rightarrow> GlobalFilters \<Rightarrow> OpportunitiesParams \<Rightarrow> OpportunityPoint list \<Rightarrow> bool" where
  "ranked k snap f params out = is_ordered_by (buildOrderByClause params) (final k snap f) out"

text \<open>\<^verbatim>\<open>limit l offset o\<close>; PostgreSQL rejects a negative count.\<close>

datatype db_error = NegativeLimit | NegativeOffset

definition sql_limit_offset :: "int \<Rightarrow> int \<Rightarrow> 'a list \<Rightarrow> db_error + 'a list" where
  "sql_limit_offset l off rows =
     (if l < 0 then Inl NegativeLimit
      else if off < 0 then Inl NegativeOffset
      else Inr (take (nat l) (drop (nat off) rows)))"

text \<open>
  The two statements of \<^verbatim>\<open>Promise.all\<close>.  Each is run on its own; \<open>ordered\<close> is the order in
  which that run of the inner \<^verbatim>\<open>select final.* from final order by ...\<close> produced the rows.
\<close>

definition scoped :: "OpportunitiesParams \<Rightarrow> 'a list \<Rightarrow> db_error + 'a list" where
  "scoped params ordered = sql_limit_offset (limit params) 0 ordered"

definition table_query :: "constants \<Rightarrow> OpportunitiesParams \<Rightarrow> 'a list \<Rightarrow> db_error + 'a list" where
  "table_query k params ordered =
     (let offset = (page params - 1) * DEFAULT_TABLE_PAGE_SIZE k in
      case scoped params ordered of
        Inl e \<Rightarrow> Inl e
      | Inr rows \<Rightarrow> sql_limit_offset (DEFAULT_TABLE_PAGE_SIZE k) offset rows)"

definition bubble_query :: "OpportunitiesParams \<Rightarrow> 'a list \<Rightarrow> db_error + 'a list" where
  "bubble_query params ordered = scoped params ordered"

record table_data =
  t_page :: int
  t_pageSize :: int
  t_total :: int
  t_rows :: "OpportunityPoint list"

record OpportunitiesData =
  bubble_points :: "OpportunityPoint list"
  table :: table_data

text \<open>
  \<^verbatim>\<open>mapOpportunityRow\<close> converts each column with \<^verbatim>\<open>toNumber\<close>, which leaves a finite
  number as it is; rows pass unchanged.
\<close>

definition getOpportunitiesData ::
  "constants \<Rightarrow> OpportunitiesParams \<Rightarrow> OpportunityPoint list \<Rightarrow> OpportunityPoint list
     \<Rightarrow> db_error + OpportunitiesData" where
  "getOpportunitiesData k params ordered_for_table ordered_for_bubble =
     (case table_query k params ordered_for_table of
        Inl e \<Rightarrow> Inl e
      | Inr tableRows \<Rightarrow>
          (case bubble_query params ordered_for_bubble of
             Inl e \<Rightarrow> Inl e
           | Inr bubblePoints \<Rightarrow>
               Inr \<lparr>bubble_points = bubblePoints,
                    table = \<lparr>t_page = page params, t_pageSize = DEFAULT_TABLE_PAGE_SIZE k,
                             t_total = int (length bubblePoints), t_rows = tableRows\<rparr>\<rparr>))"

subsection \<open>Category explorer (\<^verbatim>\<open>buildCategoryExplorerCte\<close>)\<close>

record category_stats_row =
  cst_extension_count :: int
  cst_avg_rating :: real

definition category_stats :: "snapshot \<Rightarrow> base_row list \<Rightarrow> int \<Rightarrow> category_stats_row" where
  "category_stats snap fe categoryId =
     (let ms = category_members (category_extensions snap) fe categoryId in
      \<lparr>cst_extension_count = count_distinct (map b_extension_id ms),
       cst_avg_rating = bayes_avg 5000 (weighted_sum_of ms) (weight_sum_of ms) (global_rating fe)\<rparr>)"

record cex_row =
  cex_extension_id :: int
  cex_extension_name :: ustring
  cex_extension_url :: "ustring option"
  cex_users :: real
  cex_rating :: "real option"
  cex_rating_votes :: real
  cex_updated_at :: "ustring option"
  cex_rating_gap :: "real option"

text \<open>\<^verbatim>\<open>case when fe.rating is null then null else cs.avg_rating - fe.rating end\<close>\<close>

definition cex_of :: "category_stats_row \<Rightarrow> base_row \<Rightarrow> extension \<Rightarrow> cex_row" where
  "cex_of cs fe e =
     \<lparr>cex_extension_id = e_id e, cex_extension_name = e_name e,
      cex_extension_url = e_canonical_url e, cex_users = b_users fe, cex_rating = b_rating fe,
      cex_rating_votes = b_rating_votes fe, cex_updated_at = e_updated_at e,
      cex_rating_gap =
        (case b_rating fe of None \<Rightarrow> None | Some r \<Rightarrow> Some (cst_avg_rating cs - r))\<rparr>"

definition category_extensions_view :: "snapshot \<Rightarrow> GlobalFilters \<Rightarrow> int \<Rightarrow> cex_row list" where
  "category_extensions_view snap f categoryId =
     (let fes = pipeline_filtered snap f; cs = category_stats snap fes categoryId in
      concat (map (\<lambda>ce.
        concat (map (\<lambda>fe. map (cex_of cs fe)
                             (filter (\<lambda>e. e_id e = ce_extension_id ce) (extensions snap)))
                    (filter (\<lambda>fe. b_extension_id fe = ce_extension_id ce) fes)))
        (filter (\<lambda>ce. ce_category_id ce = categoryId) (category_extensions snap))))"

text \<open>
  The users histogram.  \<open>dln\<close> is the database's \<^verbatim>\<open>ln\<close> on \<^verbatim>\<open>double precision\<close>:
  \<^verbatim>\<open>case when cex.users <= 0 then 0 when cex.users < 10 then 1
  else floor(ln(cex.users) / ln(10)) + 1 end::int\<close>.
\<close>

definition users_bucket :: "(real \<Rightarrow> real) \<Rightarrow> real \<Rightarrow> int" where
  "users_bucket dln u =
     (if u \<le> 0 then 0 else if u < 10 then 1 else \<lfloor>dln u / dln 10\<rfloor> + 1)"

definition bucket_start_of :: "int \<Rightarrow> real" where
  "bucket_start_of bucket = (if bucket = 0 then 0 else 10 powr real_of_int (bucket - 1))"

definition bucket_end_of :: "int \<Rightarrow> real" where
  "bucket_end_of bucket = (if bucket = 0 then 0 else 10 powr real_of_int bucket - 1)"

record CategoryHistogramBucket =
  bucket_start :: real
  bucket_end :: real
  item_count :: int

definition users_histogram :: "(real \<Rightarrow> real) \<Rightarrow> cex_row list \<Rightarrow> CategoryHistogramBucket list" where
  "users_histogram dln cexs =
     (let buckets = map (\<lambda>cex. users_bucket dln (cex_users cex)) cexs in
      map (\<lambda>b. \<lparr>bucket_start = bucket_start_of b, bucket_end = bucket_end_of b,
                item_count = int (count_list buckets b)\<rparr>)
          (sort (remdups buckets)))"

text \<open>
  The values that the C library's \<^verbatim>\<open>log\<close>, which is the database's \<^verbatim>\<open>ln\<close> on
  \<^verbatim>\<open>double precision\<close>, returns at 1000 and at 10 in IEEE-754 binary64
  (6.907755278982137 and 2.302585092994046), written as exact fractions.
\<close>

definition binary64_ln_1000 :: real where
  "binary64_ln_1000 = 243045032034301 / 35184372088832"

definition binary64_ln_10 :: real where
  "binary64_ln_10 = 2592480341699211 / 1125899906842624"

subsection \<open>Sample inputs\<close>

text \<open>The filters that \<^const>\<open>parseGlobalFilters\<close> returns for an empty query string.\<close>

definition no_filters :: GlobalFilters where
  "no_filters =
     \<lparr>minUsers = 0, maxUsers = None, ratingMin = 0, ratingMax = 5,
      excludeTopPct = 0, lang = [], extName = []\<rparr>"

text \<open>
  One extension listed in two categories, and the two rows that \<^const>\<open>final\<close> has for it.
\<close>

definition shared_snapshot :: snapshot where
  "shared_snapshot =
     \<lparr>extensions =
        [\<lparr>e_id = 1, e_name = ascii ''a'', e_canonical_url = None, e_users = Some 100,
          e_rating = Some 4, e_rating_votes = Some 10, e_languages = None,
          e_updated_at = None\<rparr>],
      categories = [\<lparr>cat_id = 1, cat_name = ascii ''x''\<rparr>, \<lparr>cat_id = 2, cat_name = ascii ''y''\<rparr>],
      category_extensions =
        [\<lparr>ce_category_id = 1, ce_extension_id = 1\<rparr>,
         \<lparr>ce_category_id = 2, ce_extension_id = 1\<rparr>]\<rparr>"

definition shared_row :: "int \<Rightarrow> string \<Rightarrow> OpportunityPoint" where
  "shared_row cid cname =
     \<lparr>category_id = cid, category_name = ascii cname, extension_id = 1,
      extension_name = ascii ''a'',
      extension_url = None, users = 100, rating = Some 4, rating_votes = 10,
      category_avg_rating = 4, competition_count = 1, demand_norm = 1, competition_norm = 1,
      rating_gap = 0, confidence_norm = 1, gap_effective = 0, score = 45\<rparr>"

text \<open>One extension with 1000 users in one category.\<close>

definition thousand_snapshot :: snapshot where
  "thousand_snapshot =
     \<lparr>extensions =
        [\<lparr>e_id = 1, e_name = ascii ''a'', e_canonical_url = None, e_users = Some 1000,
          e_rating = Some 4, e_rating_votes = Some 10, e_languages = None,
          e_updated_at = None\<rparr>],
      categories = [\<lparr>cat_id = 1, cat_name = ascii ''x''\<rparr>],
      category_extensions = [\<lparr>ce_category_id = 1, ce_extension_id = 1\<rparr>]\<rparr>"

text \<open>
  Three extensions in three categories of their own, the third without votes, and a category
  without extensions.
\<close>

definition rated_snapshot :: snapshot where
  "rated_snapshot =
     \<lparr>extensions =
        [\<lparr>e_id = 1, e_name = ascii ''a'', e_canonical_url = None, e_users = Some 100,
          e_rating = Some 4, e_rating_votes = Some 10, e_languages = None,
          e_updated_at = None\<rparr>,
         \<lparr>e_id = 2, e_name = ascii ''b'', e_canonical_url = None, e_users = Some 10,
          e_rating = Some 2, e_rating_votes = Some 10, e_languages = None,
          e_updated_at = None\<rparr>,
         \<lparr>e_id = 3, e_name = ascii ''c'', e_canonical_url = None, e_users = Some 5,
          e_rating = Some 5, e_rating_votes = Some 0, e_languages = None,
          e_updated_at = None\<rparr>],
      categories =
        [\<lparr>cat_id = 1, cat_name = ascii ''x''\<rparr>, \<lparr>cat_id = 2, cat_name = ascii ''y''\<rparr>,
         \<lparr>cat_id = 3, cat_name = ascii ''z''\<rparr>, \<lparr>cat_id = 4, cat_name = ascii ''w''\<rparr>],
      category_extensions =
        [\<lparr>ce_category_id = 1, ce_extension_id = 1\<rparr>,
         \<lparr>ce_category_id = 2, ce_extension_id = 2\<rparr>,
         \<lparr>ce_category_id = 3, ce_extension_id = 3\<rparr>]\<rparr>"

text \<open>Two extensions in one category.\<close>

definition pair_snapshot :: snapshot where
  "pair_snapshot =
     \<lparr>extensions =
        [\<lparr>e_id = 1, e_name = ascii ''a'', e_canonical_url = None, e_users = Some 100,
          e_rating = Some 4, e_rating_votes = Some 10, e_languages = None,
          e_updated_at = None\<rparr>,
         \<lparr>e_id = 2, e_name = ascii ''b'', e_canonical_url = None, e_users = Some 10,
          e_rating = Some 2, e_rating_votes = Some 10, e_languages = None,
          e_updated_at = None\<rparr>],
      categories = [\<lparr>cat_id = 1, cat_name = ascii ''x''\<rparr>],
      category_extensions =
        [\<lparr>ce_category_id = 1, ce_extension_id = 1\<rparr>,
         \<lparr>ce_category_id = 1, ce_extension_id = 2\<rparr>]\<rparr>"

definition half_filters :: GlobalFilters where
  "half_filters = no_filters\<lparr>maxUsers := Some 50, excludeTopPct := 50\<rparr>"

definition first_page :: OpportunitiesParams where
  "first_page = \<lparr>page = 1, limit = 100, sortBy = By_score, sortDir = Desc\<rparr>"

definition second_page_limit_one :: OpportunitiesParams where
  "second_page_limit_one = \<lparr>page = 2, limit = 1, sortBy = By_score, sortDir = Desc\<rparr>"

text \<open>
  A query string with \<^verbatim>\<open>minUsers=100000&maxUsers=50&ratingMin=4.5&ratingMax=2&excludeTopPct=abc\<close>
  and the values of \<^verbatim>\<open>Number\<close> on its strings.
\<close>

definition sample_query :: "string \<Rightarrow> ustring option" where
  "sample_query =
     map_of [(''minUsers'', ascii ''100000''), (''maxUsers'', ascii ''50''),
             (''ratingMin'', ascii ''4.5''), (''ratingMax'', ascii ''2''),
             (''excludeTopPct'', ascii ''abc'')]"

text \<open>
  A query string with
  \<^verbatim>\<open>minUsers=10.9&maxUsers=500.7&ratingMin=-1&ratingMax=4.5&excludeTopPct=80\<close> and a
  \<^verbatim>\<open>lang\<close> of a no-break space, \<^verbatim>\<open>de\<close> and a space.
\<close>

definition clamped_query :: "string \<Rightarrow> ustring option" where
  "clamped_query =
     map_of [(''minUsers'', ascii ''10.9''), (''maxUsers'', ascii ''500.7''),
             (''ratingMin'', ascii ''-1''), (''ratingMax'', ascii ''4.5''),
             (''excludeTopPct'', ascii ''80''), (''lang'', 0xA0 # ascii ''de '')]"

text \<open>A query string with \<^verbatim>\<open>minUsers=1e20\<close>.\<close>

definition huge_query :: "string \<Rightarrow> ustring option" where
  "huge_query = map_of [(''minUsers'', ascii ''1e20'')]"

definition sample_Number :: "ustring \<Rightarrow> js_number" where
  "sample_Number s =
     (if s = ascii ''100000'' then Finite 100000
      else if s = ascii ''50'' then Finite 50
      else if s = ascii ''4.5'' then Finite (9 / 2)
      else if s = ascii ''2'' then Finite 2
      else if s = ascii ''10.9'' then Finite (109 / 10)
      else if s = ascii ''500.7'' then Finite (5007 / 10)
      else if s = ascii ''-1'' then Finite (- 1)
      else if s = ascii ''80'' then Finite 80
      else if s = ascii ''1e20'' then Finite 100000000000000000000
      else NaN)"

section \<open>Properties\<close>

subsection \<open>Normalizer\<close>

lemma log_norm_bounds: "0 \<le> log_norm v p \<and> log_norm v p \<le> 1"
  by (simp add: log_norm_def split: option.split)

lemma log_norm_mono:
  assumes "0 \<le> v" "v \<le> w"
  shows "log_norm v p \<le> log_norm w p"
proof (cases p)
  case None
  then show ?thesis by (simp add: log_norm_def)
next
  case (Some q)
  show ?thesis
  proof (cases "q > 0")
    case True
    have "ln (v + 1) \<le> ln (w + 1)" using assms by simp
    moreover have "0 < ln (q + 1)" using True by simp
    ultimately have "ln (v + 1) / ln (q + 1) \<le> ln (w + 1) / ln (q + 1)"
      by (simp add: divide_right_mono)
    then show ?thesis using Some True by (simp add: log_norm_def)
  next
    case False
    then show ?thesis using Some by (simp add: log_norm_def)
  qed
qed

lemma rating_gap_norm_bounds: "0 \<le> rating_gap_norm g cap \<and> rating_gap_norm g cap \<le> 1"
  by (simp add: rating_gap_norm_def split: option.split)

lemma rating_gap_norm_mono:
  assumes "g \<le> h"
  shows "rating_gap_norm g cap \<le> rating_gap_norm h cap"
proof (cases cap)
  case None
  then show ?thesis by (simp add: rating_gap_norm_def)
next
  case (Some q)
  show ?thesis
  proof (cases "q > 0")
    case True
    have "g / q \<le> h / q" using assms True by (simp add: divide_right_mono)
    then show ?thesis using Some True by (simp add: rating_gap_norm_def)
  next
    case False
    then show ?thesis using Some by (simp add: rating_gap_norm_def)
  qed
qed

subsection \<open>Ordering\<close>

lemma mset_insert_by: "mset (insert_by le x xs) = add_mset x (mset xs)"
  by (induction xs) auto

lemma mset_order_by: "mset (order_by le xs) = mset xs"
  by (induction xs) (auto simp: order_by_def mset_insert_by)

lemma set_insert_by: "set (insert_by le x xs) = insert x (set xs)"
  by (induction xs) auto

lemma sorted_insert_by:
  assumes tot: "\<And>a b. le a b \<or> le b a" and tr: "\<And>a b c. le a b \<Longrightarrow> le b c \<Longrightarrow> le a c"
  shows "sorted_wrt le xs \<Longrightarrow> sorted_wrt le (insert_by le x xs)"
proof (induction xs)
  case Nil
  then show ?case by simp
next
  case (Cons y ys)
  show ?case
  proof (cases "le x y")
    case True
    then show ?thesis using Cons.prems tr by auto
  next
    case False
    then have "le y x" using tot by blast
    then show ?thesis using Cons False by (auto simp: set_insert_by)
  qed
qed

lemma sorted_order_by:
  assumes tot: "\<And>a b. le a b \<or> le b a" and tr: "\<And>a b c. le a b \<Longrightarrow> le b c \<Longrightarrow> le a c"
  shows "sorted_wrt le (order_by le xs)"
proof (induction xs)
  case Nil
  then show ?case by (simp add: order_by_def)
next
  case (Cons x xs)
  have "order_by le (x # xs) = insert_by le x (order_by le xs)" by (simp add: order_by_def)
  then show ?case using sorted_insert_by[of le, OF tot tr] Cons by simp
qed

lemma precedes_total: "precedes ob a b \<or> precedes ob b a"
  by (induction ob a b rule: precedes.induct) (auto split: sort_dir.splits)

lemma precedes_refl: "precedes ob a a"
  by (induction ob) auto

lemma precedes_trans: "precedes ob a b \<Longrightarrow> precedes ob b c \<Longrightarrow> precedes ob a c"
proof (induction ob)
  case Nil
  then show ?case by simp
next
  case (Cons kd ks)
  obtain k d where kd: "kd = (k, d)" by (cases kd)
  show ?case using Cons unfolding kd
    by (cases d) (auto split: if_splits)
qed

lemma precedes_tie_last:
  "precedes (ks @ [(k, d)]) a b \<Longrightarrow> precedes (ks @ [(k, d)]) b a \<Longrightarrow> k a = k b"
proof (induction ks)
  case Nil
  then show ?case by (cases d) (auto split: if_splits)
next
  case (Cons kd ks)
  obtain k' d' where kd: "kd = (k', d')" by (cases kd)
  show ?case using Cons unfolding kd by (cases d') (auto split: if_splits)
qed

lemma sorted_wrt_unique:
  assumes anti: "\<And>a b. a \<in> set xs \<Longrightarrow> b \<in> set xs \<Longrightarrow> le a b \<Longrightarrow> le b a \<Longrightarrow> a = b"
  shows "sorted_wrt le xs \<Longrightarrow> sorted_wrt le ys \<Longrightarrow> mset xs = mset ys \<Longrightarrow> xs = ys"
  using anti
proof (induction xs arbitrary: ys)
  case Nil
  then show ?case by simp
next
  case (Cons x xs)
  then obtain y ys' where ys: "ys = y # ys'" by (cases ys) auto
  have seteq: "set (x # xs) = set (y # ys')" using Cons.prems(3) ys by (metis mset_eq_setD)
  have "x = y"
  proof (rule ccontr)
    assume ne: "x \<noteq> y"
    then have "x \<in> set ys'" and "y \<in> set xs" using seteq by auto
    then have "le y x" and "le x y" using Cons.prems(1,2) ys by auto
    moreover have "x \<in> set (x # xs)" "y \<in> set (x # xs)" using \<open>y \<in> set xs\<close> by auto
    ultimately show False using Cons.prems(4) ne by blast
  qed
  moreover have "xs = ys'"
  proof (rule Cons.IH)
    show "sorted_wrt le xs" using Cons.prems(1) by simp
    show "sorted_wrt le ys'" using Cons.prems(2) ys by simp
    show "mset xs = mset ys'" using Cons.prems(3) ys \<open>x = y\<close> by simp
    show "\<And>a b. a \<in> set xs \<Longrightarrow> b \<in> set xs \<Longrightarrow> le a b \<Longrightarrow> le b a \<Longrightarrow> a = b"
      using Cons.prems(4) by simp
  qed
  ultimately show ?case using ys by simp
qed

lemma ranked_order_by:
  "ranked k snap f params (order_by (precedes (buildOrderByClause params)) (final k snap f))"
  unfolding ranked_def is_ordered_by_def
  using sorted_order_by[of "precedes (buildOrderByClause params)"] precedes_total precedes_trans
  by (metis mset_order_by)

lemma buildOrderByClause_last:
  "\<exists>ks. buildOrderByClause params = ks @ [(\<lambda>r. real_of_int (extension_id r), Asc)]"
  by (cases "sortBy params") (simp_all add: buildOrderByClause_def Let_def)

lemma tie_same_extension:
  assumes "precedes (buildOrderByClause params) a b" "precedes (buildOrderByClause params) b a"
  shows "extension_id a = extension_id b"
proof -
  obtain ks where "buildOrderByClause params = ks @ [(\<lambda>r. real_of_int (extension_id r), Asc)]"
    using buildOrderByClause_last by blast
  then have "real_of_int (extension_id a) = real_of_int (extension_id b)"
    using assms precedes_tie_last[of ks "\<lambda>r. real_of_int (extension_id r)" Asc a b] by simp
  then show ?thesis by simp
qed

lemma is_ordered_by_unique:
  assumes "is_ordered_by ob rows xs" "is_ordered_by ob rows ys"
    and "\<And>a b. a \<in> set rows \<Longrightarrow> b \<in> set rows \<Longrightarrow> precedes ob a b \<Longrightarrow> precedes ob b a \<Longrightarrow> a = b"
  shows "xs = ys"
proof -
  have "set xs = set rows" using assms(1) by (metis is_ordered_by_def mset_eq_setD)
  then show ?thesis
    using assms sorted_wrt_unique[of xs "precedes ob" ys] by (simp add: is_ordered_by_def)
qed

lemma distinct_ids_no_tie:
  assumes "distinct (map extension_id rows)" "a \<in> set rows" "b \<in> set rows"
    and "precedes (buildOrderByClause params) a b" "precedes (buildOrderByClause params) b a"
  shows "a = b"
  using assms tie_same_extension[of params a b] by (meson distinct_map inj_onD)

lemma sql_limit_offset_ok:
  "0 \<le> l \<Longrightarrow> 0 \<le> off \<Longrightarrow> sql_limit_offset l off rows = Inr (take (nat l) (drop (nat off) rows))"
  by (simp add: sql_limit_offset_def)

lemma getOpportunitiesData_ok:
  assumes "1 \<le> page params" "0 \<le> limit params" "0 \<le> DEFAULT_TABLE_PAGE_SIZE k"
  shows "getOpportunitiesData k params st sb =
     Inr \<lparr>bubble_points = take (nat (limit params)) sb,
          table = \<lparr>t_page = page params, t_pageSize = DEFAULT_TABLE_PAGE_SIZE k,
                   t_total = int (length (take (nat (limit params)) sb)),
                   t_rows = take (nat (DEFAULT_TABLE_PAGE_SIZE k))
                              (drop (nat ((page params - 1) * DEFAULT_TABLE_PAGE_SIZE k))
                                 (take (nat (limit params)) st))\<rparr>\<rparr>"
proof -
  have "0 \<le> (page params - 1) * DEFAULT_TABLE_PAGE_SIZE k" using assms by simp
  then show ?thesis
    using assms
    by (simp add: getOpportunitiesData_def table_query_def bubble_query_def scoped_def
        sql_limit_offset_def Let_def not_less)
qed

subsection \<open>Evaluating the pipeline on the sample inputs\<close>

lemmas stage_defs = final_def final_from_def normalized_from_def distribution_from_def
  candidates_from_def scores_from_def pipeline_filtered_def

lemmas cte_defs = ascii_def filtered_extensions_def
      extensions_base_def top_excluded_def top_excluded_limit_def passes_filters_def base_of_def
      category_scores_def category_aggregates_def category_members_def count_distinct_def
      weighted_sum_of_def weight_sum_of_def global_rating_def global_weighted_def global_weight_sum_of_def
      bayes_avg_def candidate_set_def candidate_of_def greatest_gap_def distribution_def percentile_cont_def
      normalized_def normalized_of_def log_norm_def rating_gap_norm_def final_of_def
      rating_times_votes_def candidate_row.extend_def Let_def order_by_def users_desc_id_asc_def

lemma final_shared:
  "final default_constants shared_snapshot no_filters = [shared_row 1 ''x'', shared_row 2 ''y'']"
  by (simp add: stage_defs cte_defs shared_snapshot_def no_filters_def default_constants_def shared_row_def)

lemma ext_ids_pair: "map extension_id (final default_constants pair_snapshot no_filters) = [1, 2]"
  by (simp add: stage_defs cte_defs pair_snapshot_def no_filters_def default_constants_def)

lemma length_ranked: "ranked k snap f params out \<Longrightarrow> length out = length (final k snap f)"
  by (metis ranked_def is_ordered_by_def size_mset)

lemma shared_rows_differ: "shared_row 1 ''x'' \<noteq> shared_row 2 ''y''"
  by (simp add: shared_row_def)

lemma shared_rows_tie:
  "precedes (buildOrderByClause params) (shared_row c n) (shared_row c' n')"
  by (cases "sortBy params") (simp_all add: buildOrderByClause_def shared_row_def Let_def)

lemma shared_ranked_either:
  "ranked default_constants shared_snapshot no_filters params [shared_row 1 ''x'', shared_row 2 ''y'']"
  "ranked default_constants shared_snapshot no_filters params [shared_row 2 ''y'', shared_row 1 ''x'']"
  by (simp_all add: ranked_def is_ordered_by_def final_shared shared_rows_tie)

lemma length_final_pair: "length (final default_constants pair_snapshot no_filters) = 2"
  using arg_cong[OF ext_ids_pair, of length] by simp

subsection \<open>Histogram buckets in exact arithmetic\<close>

lemma users_bucket_small:
  "users_bucket dln 0 = 0 \<and> bucket_start_of 0 = 0 \<and> bucket_end_of 0 = 0
   \<and> users_bucket dln 7 = 1 \<and> bucket_start_of 1 = 1 \<and> bucket_end_of 1 = 9"
  by (simp add: users_bucket_def bucket_start_of_def bucket_end_of_def)

lemma users_bucket_exact_ln:
  assumes "10 \<le> u"
  shows "bucket_start_of (users_bucket ln u) \<le> u \<and> u < bucket_end_of (users_bucket ln u) + 1"
proof -
  let ?n = "\<lfloor>ln u / ln 10\<rfloor>"
  have u: "0 < u" using assms by simp
  have l: "ln u / ln 10 = log 10 u" by (simp add: log_def)
  have "1 \<le> log 10 u" using assms by (simp add: le_log_iff)
  then have n1: "1 \<le> ?n" unfolding l by simp
  have b: "users_bucket ln u = ?n + 1" using assms by (simp add: users_bucket_def)
  have "real_of_int ?n \<le> log 10 u" unfolding l by simp
  then have lo: "10 powr real_of_int ?n \<le> u" using u by (simp add: le_log_iff)
  have "log 10 u < real_of_int ?n + 1" unfolding l by linarith
  then have hi: "u < 10 powr (real_of_int ?n + 1)" using u by (simp add: log_less_iff)
  have nz: "?n + 1 \<noteq> 0" using n1 by linarith
  have "bucket_start_of (?n + 1) = 10 powr real_of_int ?n"
    and "bucket_end_of (?n + 1) = 10 powr (real_of_int ?n + 1) - 1"
    using nz by (simp_all add: bucket_start_of_def bucket_end_of_def)
  then show ?thesis unfolding b using lo hi by simp
qed

lemma users_bucket_250: "users_bucket ln 250 = 3 \<and> bucket_start_of 3 = 100 \<and> bucket_end_of 3 = 999"
proof -
  have "\<lfloor>log 10 250\<rfloor> = 2"
  proof (rule floor_unique)
    have "10 powr 2 \<le> (250::real)" by simp
    then show "real_of_int 2 \<le> log 10 250" by (simp add: le_log_iff)
    have "(250::real) < 10 powr 3" by simp
    then show "log 10 250 < real_of_int 2 + 1" by (simp add: log_less_iff)
  qed
  then have "users_bucket ln 250 = 3" by (simp add: users_bucket_def log_def)
  then show ?thesis by (simp add: bucket_start_of_def bucket_end_of_def)
qed

lemma rating_gap_norm_saturates: "0 < cap \<Longrightarrow> cap \<le> g \<Longrightarrow> rating_gap_norm g (Some cap) = 1"
  by (simp add: rating_gap_norm_def)

subsection \<open>Filter parsing\<close>

lemma sample_numbers:
  "parseNumber sample_Number (sample_query ''minUsers'') = Some 100000"
  "parseNumber sample_Number (sample_query ''maxUsers'') = Some 50"
  "parseNumber sample_Number (sample_query ''ratingMin'') = Some (9 / 2)"
  "parseNumber sample_Number (sample_query ''ratingMax'') = Some 2"
  "parseNumber sample_Number (sample_query ''excludeTopPct'') = None"
  by (simp_all add: parseNumber_def sample_query_def sample_Number_def trim_def is_space_def ascii_def)

lemma clamped_numbers:
  "parseNumber sample_Number (clamped_query ''minUsers'') = Some (109 / 10)"
  "parseNumber sample_Number (clamped_query ''maxUsers'') = Some (5007 / 10)"
  "parseNumber sample_Number (clamped_query ''ratingMin'') = Some (- 1)"
  "parseNumber sample_Number (clamped_query ''ratingMax'') = Some (9 / 2)"
  "parseNumber sample_Number (clamped_query ''excludeTopPct'') = Some 80"
  by (simp_all add: parseNumber_def clamped_query_def sample_Number_def trim_def is_space_def ascii_def)

lemma huge_number:
  "parseNumber sample_Number (huge_query ''minUsers'') = Some 100000000000000000000"
  "parseNumber sample_Number (huge_query ''maxUsers'') = None"
  "parseNumber sample_Number (huge_query ''ratingMin'') = None"
  "parseNumber sample_Number (huge_query ''ratingMax'') = None"
  "parseNumber sample_Number (huge_query ''excludeTopPct'') = None"
  by (simp_all add: parseNumber_def huge_query_def sample_Number_def trim_def is_space_def ascii_def)

lemma Number_isInteger_floor: "Number_isInteger (of_int \<lfloor>x\<rfloor>)"
  by (simp add: Number_isInteger_def)

lemma zod_int_small:
  "Number_isInteger x \<Longrightarrow> 0 \<le> x \<Longrightarrow> x \<le> 50 \<Longrightarrow> zod_int x"
  by (simp add: zod_int_def MAX_SAFE_INTEGER_def)

lemma zod_int_floor:
  fixes x :: real
  assumes "0 \<le> x"
  shows "zod_int (of_int \<lfloor>x\<rfloor>) = (real_of_int \<lfloor>x\<rfloor> \<le> MAX_SAFE_INTEGER)"
proof -
  have f: "(0::real) \<le> real_of_int \<lfloor>x\<rfloor>" using assms by simp
  have "- MAX_SAFE_INTEGER \<le> real_of_int \<lfloor>x\<rfloor>"
    unfolding MAX_SAFE_INTEGER_def using f by linarith
  then show ?thesis by (simp add: zod_int_def Number_isInteger_def)
qed

lemma isInteger_clamp:
  "Number_isInteger x \<Longrightarrow> Number_isInteger (min (max x 0) 50)"
  by (auto simp: Number_isInteger_def min_def max_def)

text \<open>The object that is handed to the schema.\<close>

lemma parseGlobalFilters_object:
  assumes "parseNumber Number (searchParams ''minUsers'') = minUsersRaw"
    and "parseNumber Number (searchParams ''maxUsers'') = maxUsersRaw"
    and "parseNumber Number (searchParams ''ratingMin'') = ratingMinRaw"
    and "parseNumber Number (searchParams ''ratingMax'') = ratingMaxRaw"
    and "parseNumber Number (searchParams ''excludeTopPct'') = excludeTopPctRaw"
    and "mn = (case minUsersRaw of None \<Rightarrow> 0 | Some x \<Rightarrow> if 0 \<le> x then of_int \<lfloor>x\<rfloor> else 0)"
    and "lo = (case ratingMinRaw of None \<Rightarrow> 0 | Some a \<Rightarrow> min (max a 0) 5)"
    and "hi = (case ratingMaxRaw of None \<Rightarrow> 5 | Some b \<Rightarrow> min (max b 0) 5)"
  shows "parseGlobalFilters Number searchParams =
     globalFiltersSchema_parse
       \<lparr>minUsers = mn,
        maxUsers = (case maxUsersRaw of None \<Rightarrow> None
                    | Some y \<Rightarrow> if 0 \<le> y \<and> mn \<le> of_int \<lfloor>y\<rfloor> then Some (of_int \<lfloor>y\<rfloor>) else None),
        ratingMin = (if lo \<le> hi then lo else 0),
        ratingMax = (if lo \<le> hi then hi else 5),
        excludeTopPct = (case excludeTopPctRaw of None \<Rightarrow> 0
                         | Some x \<Rightarrow> if of_int \<lfloor>x\<rfloor> = x then min (max x 0) 50 else 0),
        lang = trim (case searchParams ''lang'' of None \<Rightarrow> [] | Some s \<Rightarrow> s),
        extName = trim (case searchParams ''extName'' of None \<Rightarrow> [] | Some s \<Rightarrow> s)\<rparr>"
proof -
  have mn: "(case minUsersRaw of None \<Rightarrow> 0 | Some x \<Rightarrow> if 0 \<le> x then Math_floor x else 0) = mn"
    unfolding assms(6) by (cases minUsersRaw) (simp_all add: Math_floor_def)
  have mx: "(case (case maxUsersRaw of None \<Rightarrow> None
                   | Some x \<Rightarrow> if 0 \<le> x then Some (Math_floor x) else None) of
               None \<Rightarrow> None | Some m \<Rightarrow> if m < mn then None else Some m)
           = (case maxUsersRaw of None \<Rightarrow> None
              | Some y \<Rightarrow> if 0 \<le> y \<and> mn \<le> of_int \<lfloor>y\<rfloor> then Some (of_int \<lfloor>y\<rfloor>) else None)"
    by (cases maxUsersRaw) (simp_all add: Math_floor_def not_less)
  have lo: "(case ratingMinRaw of None \<Rightarrow> 0 | Some x \<Rightarrow> clamp x 0 5) = lo"
    unfolding assms(7) by (cases ratingMinRaw) (simp_all add: clamp_def)
  have hi: "(case ratingMaxRaw of None \<Rightarrow> 5 | Some x \<Rightarrow> clamp x 0 5) = hi"
    unfolding assms(8) by (cases ratingMaxRaw) (simp_all add: clamp_def)
  have pct: "(case excludeTopPctRaw of None \<Rightarrow> 0
              | Some x \<Rightarrow> if Number_isInteger x then clamp x 0 50 else 0)
           = (case excludeTopPctRaw of None \<Rightarrow> 0
              | Some x \<Rightarrow> if of_int \<lfloor>x\<rfloor> = x then min (max x 0) 50 else 0)"
    by (cases excludeTopPctRaw) (simp_all add: Number_isInteger_def clamp_def)
  have sw: "(if hi < lo then 0 else lo) = (if lo \<le> hi then lo else 0)"
    "(if hi < lo then 5 else hi) = (if lo \<le> hi then hi else 5)"
    by auto
  show ?thesis
    unfolding parseGlobalFilters_def Let_def assms(1-5) mn mx lo hi pct get_or_empty_def
    by (simp only: sw)
qed

subsection \<open>Rows of the pipeline\<close>

lemma filtered_rated:
  "fe \<in> set (filtered_extensions f base) \<Longrightarrow> passes_filters f fe \<and> (\<exists>x. b_rating fe = Some x)"
  by (auto simp: filtered_extensions_def passes_filters_def split: option.splits)

lemma candidate_set_mem:
  "c \<in> set (candidate_set fes links css) \<Longrightarrow>
     \<exists>fe\<in>set fes. \<exists>cs\<in>set css. c = candidate_of fe cs"
  by (auto simp: candidate_set_def)

lemma final_mem:
  "r \<in> set (final k snap f) \<Longrightarrow>
     \<exists>c\<in>set (candidates_from k snap (pipeline_filtered snap f)).
        r = final_of k (normalized_of (distribution_from k snap (pipeline_filtered snap f)) c)"
  by (auto simp: final_def final_from_def normalized_from_def normalized_def)

lemma final_of_fields:
  "rating (final_of k (normalized_of d c)) = c_rating c"
  "rating_gap (final_of k (normalized_of d c)) = c_rating_gap c"
  "category_avg_rating (final_of k (normalized_of d c)) = c_category_avg_rating c"
  "users (final_of k (normalized_of d c)) = c_users c"
  "rating_votes (final_of k (normalized_of d c)) = c_rating_votes c"
  "competition_count (final_of k (normalized_of d c)) = c_competition_count c"
  "demand_norm (final_of k (normalized_of d c)) = log_norm (c_users c) (p95_users d)"
  "competition_norm (final_of k (normalized_of d c)) =
     log_norm (real_of_int (c_competition_count c)) (p95_competition_count d)"
  "confidence_norm (final_of k (normalized_of d c)) = log_norm (c_rating_votes c) (p95_votes d)"
  "gap_effective (final_of k (normalized_of d c)) =
     rating_gap_norm (c_rating_gap c) (gap_cap d) * log_norm (c_rating_votes c) (p95_votes d)"
  "score (final_of k (normalized_of d c)) =
     OPPORTUNITIES_SCORE_SCALE k *
       (OPPORTUNITIES_SCORE_DEMAND_WEIGHT k * log_norm (c_users c) (p95_users d)
        + OPPORTUNITIES_SCORE_GAP_WEIGHT k *
            (rating_gap_norm (c_rating_gap c) (gap_cap d) * log_norm (c_rating_votes c) (p95_votes d))
        + OPPORTUNITIES_SCORE_INVERSE_COMPETITION_WEIGHT k *
            (1 - log_norm (real_of_int (c_competition_count c)) (p95_competition_count d)))"
  by (simp_all add: final_of_def normalized_of_def candidate_row.extend_def)

lemma rating_gap_norm_zero: "rating_gap_norm 0 cap = 0"
  by (simp add: rating_gap_norm_def split: option.split)

lemma cex_mem:
  "c \<in> set (category_extensions_view snap f cid) \<Longrightarrow>
     \<exists>fe\<in>set (pipeline_filtered snap f). \<exists>e\<in>set (extensions snap).
        c = cex_of (category_stats snap (pipeline_filtered snap f) cid) fe e"
  by (auto simp: category_extensions_view_def Let_def)

lemma final_pair:
  "final default_constants pair_snapshot no_filters =
     [\<lparr>category_id = 1, category_name = ascii ''x'', extension_id = 1,
       extension_name = ascii ''a'',
       extension_url = None, users = 100, rating = Some 4, rating_votes = 10,
       category_avg_rating = 3, competition_count = 2, demand_norm = 1, competition_norm = 1,
       rating_gap = 0, confidence_norm = 1, gap_effective = 0, score = 45\<rparr>,
      \<lparr>category_id = 1, category_name = ascii ''x'', extension_id = 2,
       extension_name = ascii ''b'',
       extension_url = None, users = 10, rating = Some 2, rating_votes = 10,
       category_avg_rating = 3, competition_count = 2,
       demand_norm = ln 11 / ln (193 / 2), competition_norm = 1,
       rating_gap = 1, confidence_norm = 1, gap_effective = 1,
       score = 35 + 45 * ln 11 / ln (193 / 2)\<rparr>]"
  apply (simp add: stage_defs cte_defs pair_snapshot_def no_filters_def default_constants_def)
  done

lemma category_members_subset: "r \<in> set (category_members links fe cid) \<Longrightarrow> r \<in> set fe"
  by (auto simp: category_members_def)

lemma weight_sum_of_rated:
  assumes "\<forall>r\<in>set ms. \<exists>x. b_rating r = Some x"
  shows "weight_sum_of ms = sum_list (map b_rating_votes (filter (\<lambda>r. 0 < b_rating_votes r) ms))"
proof -
  have "filter (\<lambda>r. b_rating r \<noteq> None \<and> 0 < b_rating_votes r) ms
        = filter (\<lambda>r. 0 < b_rating_votes r) ms"
    using assms by (intro filter_cong) auto
  then show ?thesis by (simp add: weight_sum_of_def)
qed

lemma scores_from_mem:
  assumes "cs \<in> set (scores_from k snap fe)"
  shows "0 < cs_competition_count cs
       \<and> cs_category_avg_rating cs =
           bayes_avg (OPPORTUNITIES_BAYES_PRIOR_WEIGHT k)
             (weighted_sum_of (category_members (category_extensions snap) fe (cs_category_id cs)))
             (weight_sum_of (category_members (category_extensions snap) fe (cs_category_id cs)))
             (global_rating fe)"
  using assms
  by (auto simp: scores_from_def category_scores_def category_aggregates_def Let_def)

lemma bayes_avg_scenario:
  "bayes_avg 5000 (4 * 100 + 5 * 0 + 2 * 50) (100 + 50) (7 / 2)
     = 150 / 5150 * (500 / 150) + 5000 / 5150 * (7 / 2)
   \<and> bayes_avg 5000 (4 * 100 + 5 * 0 + 2 * 50) (100 + 50) (7 / 2) = 360 / 103"
  by (simp add: bayes_avg_def)

lemma users_desc_id_asc_total: "users_desc_id_asc a b \<or> users_desc_id_asc b a"
  by (auto simp: users_desc_id_asc_def)

lemma users_desc_id_asc_trans:
  "users_desc_id_asc a b \<Longrightarrow> users_desc_id_asc b c \<Longrightarrow> users_desc_id_asc a c"
  by (auto simp: users_desc_id_asc_def)

lemma passes_filters_pct: "passes_filters (f\<lparr>excludeTopPct := p\<rparr>) = passes_filters f"
  by (rule ext) (simp add: passes_filters_def split: option.splits)

lemma top_excluded_zero: "excludeTopPct f = 0 \<Longrightarrow> top_excluded f base = []"
  by (simp add: top_excluded_def top_excluded_limit_def)

lemma pipeline_filtered_without:
  "pipeline_filtered (without_top_excluded snap f) (f\<lparr>excludeTopPct := 0\<rparr>)
     = pipeline_filtered snap f"
proof -
  have "top_excluded (f\<lparr>excludeTopPct := 0\<rparr>) base = []" for base
    by (simp add: top_excluded_zero)
  then show ?thesis
    by (simp add: pipeline_filtered_def without_top_excluded_def filtered_extensions_def
        passes_filters_pct extensions_base_def filter_map o_def base_of_def conj_commute)
qed

lemma downstream_without:
  "scores_from k (without_top_excluded snap f) fe = scores_from k snap fe"
  "distribution_from k (without_top_excluded snap f) fe = distribution_from k snap fe"
  "final_from k (without_top_excluded snap f) fe = final_from k snap fe"
  by (simp_all add: final_from_def normalized_from_def distribution_from_def candidates_from_def
      scores_from_def without_top_excluded_def)

text \<open>
  The join of \<^verbatim>\<open>category_aggregates\<close> against the link table: as the link table has the
  primary key \<open>(category_id, extension_id)\<close>, the rows joined to a category are, with their
  multiplicities, the rows of the filtered set that the link table attaches to it.
\<close>

lemma mset_filter_disj:
  assumes "\<And>x. x \<in> set xs \<Longrightarrow> \<not> (P x \<and> Q x)"
  shows "mset (filter (\<lambda>x. P x \<or> Q x) xs) = mset (filter P xs) + mset (filter Q xs)"
  using assms by (induction xs) auto

lemma mset_category_members:
  assumes "distinct links"
  shows "mset (category_members links fe cid)
       = mset (filter (\<lambda>r. \<lparr>ce_category_id = cid, ce_extension_id = b_extension_id r\<rparr> \<in> set links) fe)"
  using assms
proof (induction links)
  case Nil
  then show ?case by (simp add: category_members_def)
next
  case (Cons l ls)
  have IH: "mset (category_members ls fe cid)
       = mset (filter (\<lambda>r. \<lparr>ce_category_id = cid, ce_extension_id = b_extension_id r\<rparr> \<in> set ls) fe)"
    using Cons by simp
  have notin: "l \<notin> set ls" using Cons.prems by simp
  show ?case
  proof (cases "ce_category_id l = cid")
    case True
    have l: "\<And>r. (\<lparr>ce_category_id = cid, ce_extension_id = b_extension_id r\<rparr> = l)
                 = (b_extension_id r = ce_extension_id l)"
      using True by (cases l) auto
    have split: "category_members (l # ls) fe cid
        = filter (\<lambda>r. b_extension_id r = ce_extension_id l) fe @ category_members ls fe cid"
      using True by (simp add: category_members_def)
    have disj: "\<And>r. \<not> (b_extension_id r = ce_extension_id l
              \<and> \<lparr>ce_category_id = cid, ce_extension_id = b_extension_id r\<rparr> \<in> set ls)"
      using notin l by metis
    have "mset (filter (\<lambda>r. \<lparr>ce_category_id = cid, ce_extension_id = b_extension_id r\<rparr> \<in> set (l # ls)) fe)
        = mset (filter (\<lambda>r. b_extension_id r = ce_extension_id l
                  \<or> \<lparr>ce_category_id = cid, ce_extension_id = b_extension_id r\<rparr> \<in> set ls) fe)"
      by (simp add: l)
    also have "\<dots> = mset (filter (\<lambda>r. b_extension_id r = ce_extension_id l) fe)
                   + mset (filter (\<lambda>r. \<lparr>ce_category_id = cid, ce_extension_id = b_extension_id r\<rparr> \<in> set ls) fe)"
      using disj by (intro mset_filter_disj) blast
    finally show ?thesis using split IH by simp
  next
    case False
    then have l: "\<And>r. \<lparr>ce_category_id = cid, ce_extension_id = b_extension_id r\<rparr> \<noteq> l"
      by auto
    have "category_members (l # ls) fe cid = category_members ls fe cid"
      using False by (simp add: category_members_def)
    then show ?thesis using IH by (simp add: l)
  qed
qed

lemma sum_list_filter_mset:
  fixes g :: "'a \<Rightarrow> real"
  assumes "mset xs = mset ys"
  shows "sum_list (map g (filter P xs)) = sum_list (map g (filter P ys))"
proof -
  have "mset (map g (filter P xs)) = mset (map g (filter P ys))"
    using assms by (metis mset_filter mset_map)
  then show ?thesis by (metis sum_mset_sum_list)
qed

lemma sums_of_category_members:
  fixes g :: "base_row \<Rightarrow> real"
  assumes "distinct links"
  shows "sum_list (map g (filter P (category_members links fe cid)))
       = sum_list (map g (filter (\<lambda>r. P r
             \<and> \<lparr>ce_category_id = cid, ce_extension_id = b_extension_id r\<rparr> \<in> set links) fe))"
proof -
  have "sum_list (map g (filter P (category_members links fe cid)))
      = sum_list (map g (filter P
          (filter (\<lambda>r. \<lparr>ce_category_id = cid, ce_extension_id = b_extension_id r\<rparr> \<in> set links) fe)))"
    by (rule sum_list_filter_mset[OF mset_category_members[OF assms]])
  then show ?thesis by (simp add: conj_commute)
qed

lemma set_category_members:
  assumes "distinct links"
  shows "set (category_members links fe cid)
       = {r \<in> set fe. \<lparr>ce_category_id = cid, ce_extension_id = b_extension_id r\<rparr> \<in> set links}"
  using mset_category_members[OF assms, of fe cid] by (metis mset_eq_setD set_filter)

lemma count_distinct_card: "count_distinct xs = int (card (set xs))"
  by (simp add: count_distinct_def length_remdups_card_conv)

lemma scores_from_origin:
  assumes "cs \<in> set (scores_from k snap fe)"
  shows "\<exists>c\<in>set (categories snap). cat_id c = cs_category_id cs \<and> cat_name c = cs_category_name cs"
    and "cs_competition_count cs =
           count_distinct (map b_extension_id
             (category_members (category_extensions snap) fe (cs_category_id cs)))"
  using assms
  by (auto simp: scores_from_def category_scores_def category_aggregates_def Let_def)

lemma scores_from_intro:
  assumes "c \<in> set (categories snap)"
    and "0 < count_distinct (map b_extension_id
               (category_members (category_extensions snap) fe (cat_id c)))"
  shows "\<exists>cs\<in>set (scores_from k snap fe).
           cs_category_id cs = cat_id c \<and> cs_category_name cs = cat_name c"
proof -
  let ?ms = "category_members (category_extensions snap) fe (cat_id c)"
  let ?ca = "\<lparr>ca_category_id = cat_id c, ca_category_name = cat_name c,
              ca_competition_count = count_distinct (map b_extension_id ?ms),
              ca_rating_weighted_sum = weighted_sum_of ?ms,
              ca_rating_weight_sum = weight_sum_of ?ms\<rparr>"
  let ?cas = "category_aggregates (categories snap) (category_extensions snap) fe"
  let ?mk = "\<lambda>ca. \<lparr>cs_category_id = ca_category_id ca, cs_category_name = ca_category_name ca,
                cs_competition_count = ca_competition_count ca,
                cs_category_avg_rating =
                  bayes_avg (OPPORTUNITIES_BAYES_PRIOR_WEIGHT k) (ca_rating_weighted_sum ca)
                    (ca_rating_weight_sum ca) (global_rating fe)\<rparr>"
  have "?ca \<in> set ?cas"
    using assms(1) by (simp add: category_aggregates_def Let_def image_iff) blast
  moreover have "0 < ca_competition_count ?ca" using assms(2) by simp
  ultimately have "?ca \<in> set (filter (\<lambda>ca. ca_competition_count ca > 0) ?cas)" by simp
  then have "?mk ?ca \<in> set (scores_from k snap fe)"
    unfolding scores_from_def category_scores_def by (metis (no_types, lifting) image_eqI set_map)
  moreover have "cs_category_id (?mk ?ca) = cat_id c \<and> cs_category_name (?mk ?ca) = cat_name c"
    by simp
  ultimately show ?thesis by blast
qed


lemma card_image_pos:
  assumes "finite A"
  shows "(0 < int (card (g ` A))) = (\<exists>a. a \<in> A)"
  using assms by (auto simp: card_gt_0_iff)

lemma scores_rated:
  "map cs_category_id (scores_from default_constants rated_snapshot
       (pipeline_filtered rated_snapshot no_filters)) = [1, 2, 3]"
  "global_rating (pipeline_filtered rated_snapshot no_filters) = 3"
  "distinct (category_extensions rated_snapshot)"
  by (simp_all add: scores_from_def pipeline_filtered_def cte_defs rated_snapshot_def no_filters_def
      default_constants_def)

lemma sums_rated:
  "sum_list (map b_rating_votes
     (filter (\<lambda>r. 0 < b_rating_votes r
                \<and> \<lparr>ce_category_id = 1, ce_extension_id = b_extension_id r\<rparr>
                  \<in> set (category_extensions rated_snapshot))
        (pipeline_filtered rated_snapshot no_filters))) = 10"
  "sum_list (map rating_times_votes
     (filter (\<lambda>r. 0 < b_rating_votes r
                \<and> \<lparr>ce_category_id = 1, ce_extension_id = b_extension_id r\<rparr>
                  \<in> set (category_extensions rated_snapshot))
        (pipeline_filtered rated_snapshot no_filters))) = 40"
  "sum_list (map b_rating_votes
     (filter (\<lambda>r. 0 < b_rating_votes r
                \<and> \<lparr>ce_category_id = 3, ce_extension_id = b_extension_id r\<rparr>
                  \<in> set (category_extensions rated_snapshot))
        (pipeline_filtered rated_snapshot no_filters))) = 0"
  by (simp_all add: pipeline_filtered_def cte_defs rated_snapshot_def no_filters_def)

lemma members_rated:
  "b_extension_id ` {r \<in> set (pipeline_filtered rated_snapshot no_filters).
       \<lparr>ce_category_id = 1, ce_extension_id = b_extension_id r\<rparr>
         \<in> set (category_extensions rated_snapshot)} = {1}"
proof -
  have "b_extension_id ` set (filter (\<lambda>r. \<lparr>ce_category_id = 1, ce_extension_id = b_extension_id r\<rparr>
         \<in> set (category_extensions rated_snapshot)) (pipeline_filtered rated_snapshot no_filters)) = {1}"
    by (simp add: pipeline_filtered_def cte_defs rated_snapshot_def no_filters_def)
  then show ?thesis by (simp only: set_filter)
qed

subsection \<open>Table page and bubble set when no rows tie\<close>

text \<open>
  When no two distinct rows of \<^const>\<open>final\<close> tie on the whole chain of the requested sort
  key, then for every pair of runs, every page number \<open>\<ge> 1\<close> and every non-negative limit and
  page size the request succeeds and the table page is the slice
  \<open>[offset, offset + page_size)\<close> of the bubble set, with \<open>offset = (page - 1) * page_size\<close>.
\<close>

lemma table_is_slice_of_bubble_without_ties:
  assumes "ranked k snap f params ordered_for_table"
    and "ranked k snap f params ordered_for_bubble"
    and "\<forall>a\<in>set (final k snap f). \<forall>b\<in>set (final k snap f).
           precedes (buildOrderByClause params) a b \<and> precedes (buildOrderByClause params) b a
           \<longrightarrow> a = b"
    and "1 \<le> page params" "0 \<le> limit params" "0 \<le> DEFAULT_TABLE_PAGE_SIZE k"
  shows "\<exists>d. getOpportunitiesData k params ordered_for_table ordered_for_bubble = Inr d
           \<and> t_rows (table d) =
               take (nat (DEFAULT_TABLE_PAGE_SIZE k))
                 (drop (nat ((page params - 1) * DEFAULT_TABLE_PAGE_SIZE k)) (bubble_points d))"
proof -
  have "ordered_for_table = ordered_for_bubble"
    using assms(1,2,3) is_ordered_by_unique[of "buildOrderByClause params" "final k snap f"]
    unfolding ranked_def by blast
  then show ?thesis
    using getOpportunitiesData_ok[OF assms(4,5,6)] by simp
qed

lemma table_is_slice_of_bubble_on_pair:
  "ranked default_constants pair_snapshot no_filters first_page
     (order_by (precedes (buildOrderByClause first_page))
        (final default_constants pair_snapshot no_filters))
   \<and> distinct (map extension_id (final default_constants pair_snapshot no_filters))
   \<and> 1 \<le> page first_page \<and> 0 \<le> limit first_page
   \<and> 0 \<le> DEFAULT_TABLE_PAGE_SIZE default_constants
   \<and> (\<exists>d. getOpportunitiesData default_constants first_page
              (order_by (precedes (buildOrderByClause first_page))
                 (final default_constants pair_snapshot no_filters))
              (order_by (precedes (buildOrderByClause first_page))
                 (final default_constants pair_snapshot no_filters)) = Inr d
          \<and> t_rows (table d) = take 20 (bubble_points d))"
proof -
  let ?rows = "final default_constants pair_snapshot no_filters"
  let ?s = "order_by (precedes (buildOrderByClause first_page)) ?rows"
  have r: "ranked default_constants pair_snapshot no_filters first_page ?s"
    by (rule ranked_order_by)
  have d: "distinct (map extension_id ?rows)" by (simp add: ext_ids_pair)
  have nt: "\<forall>a\<in>set ?rows. \<forall>b\<in>set ?rows.
      precedes (buildOrderByClause first_page) a b \<and> precedes (buildOrderByClause first_page) b a
      \<longrightarrow> a = b"
    using distinct_ids_no_tie[OF d] by blast
  have p: "1 \<le> page first_page" "0 \<le> limit first_page"
    "0 \<le> DEFAULT_TABLE_PAGE_SIZE default_constants"
    by (simp_all add: first_page_def default_constants_def)
  show ?thesis
    using table_is_slice_of_bubble_without_ties[OF r r nt p] r d p
    by (simp add: first_page_def default_constants_def)
qed

subsection \<open>Table page and bubble set when the leading rows tie\<close>

text \<open>
  On every snapshot, with every filter set and sort key: when the two leading rows of an answer
  of the ranking query tie on the whole chain, the answer with these two rows exchanged is an
  answer as well, and when the run for the table returns the one and the run for the bubble set
  the other, the first page is not the leading slice of the bubble set.
\<close>

lemma table_page_differs_when_leading_rows_tie:
  assumes "ranked k snap f params (a # b # rest)"
    and "precedes (buildOrderByClause params) b a"
    and "a \<noteq> b"
    and "page params = 1" and "0 < limit params" and "0 < DEFAULT_TABLE_PAGE_SIZE k"
  shows "ranked k snap f params (b # a # rest)
     \<and> (\<exists>d. getOpportunitiesData k params (b # a # rest) (a # b # rest) = Inr d
          \<and> t_rows (table d)
              \<noteq> take (nat (DEFAULT_TABLE_PAGE_SIZE k)) (drop 0 (bubble_points d)))"
proof -
  have r: "ranked k snap f params (b # a # rest)"
    using assms(1,2) unfolding ranked_def is_ordered_by_def
    by (auto simp: add_mset_commute[of a b])
  obtain m where m: "nat (limit params) = Suc m"
    using assms(5) by (metis Suc_pred' zero_less_nat_eq)
  obtain n where n: "nat (DEFAULT_TABLE_PAGE_SIZE k) = Suc n"
    using assms(6) by (metis Suc_pred' zero_less_nat_eq)
  have g: "getOpportunitiesData k params (b # a # rest) (a # b # rest)
           = Inr \<lparr>bubble_points = a # take m (b # rest),
                  table = \<lparr>t_page = 1, t_pageSize = DEFAULT_TABLE_PAGE_SIZE k,
                           t_total = int (length (a # take m (b # rest))),
                           t_rows = b # take n (take m (a # rest))\<rparr>\<rparr>"
    using assms(4,5,6)
    by (simp add: getOpportunitiesData_def table_query_def bubble_query_def
        scoped_def sql_limit_offset_def m n)
  show ?thesis using r assms(3) unfolding g by (simp add: n)
qed

section \<open>The claims\<close>

subsection \<open>Ranker: ties between rows of one extension\<close>

text \<open>
  Claim C3 says that for every sort key and direction the comparison chain of the ranker is a
  total order on the candidate rows, so that distinct rows never compare equal and the row
  order is determined.  Every chain of \<^const>\<open>buildOrderByClause\<close> ends in
  \<^verbatim>\<open>final.extension_id asc\<close>, while a candidate row is an extension in a category.  On a
  snapshot with one extension listed in two categories of equal membership the pipeline yields
  two distinct rows with the same extension id that agree on every expression of every chain:
  each may precede the other, and both orders are answers of the ranking query.
\<close>

theorem ranker_ties_on_shared_extension:
  "final default_constants shared_snapshot no_filters = [shared_row 1 ''x'', shared_row 2 ''y'']
   \<and> shared_row 1 ''x'' \<noteq> shared_row 2 ''y''
   \<and> extension_id (shared_row 1 ''x'') = extension_id (shared_row 2 ''y'')
   \<and> (\<forall>params.
         precedes (buildOrderByClause params) (shared_row 1 ''x'') (shared_row 2 ''y'')
         \<and> precedes (buildOrderByClause params) (shared_row 2 ''y'') (shared_row 1 ''x'')
         \<and> ranked default_constants shared_snapshot no_filters params
             [shared_row 1 ''x'', shared_row 2 ''y'']
         \<and> ranked default_constants shared_snapshot no_filters params
             [shared_row 2 ''y'', shared_row 1 ''x''])"
  using shared_rows_differ
  by (simp add: final_shared shared_rows_tie shared_ranked_either) (simp add: shared_row_def)

subsection \<open>Table page and bubble set\<close>

text \<open>
  Claim C4 says that the table page is the slice \<open>[offset, offset + page_size)\<close> of the bubble
  set.  The two are the results of two statements with the same \<^verbatim>\<open>order by\<close> and
  \<^verbatim>\<open>limit\<close> that are run separately.  When no two distinct rows tie on the chain, every
  run returns the same order and the page is that slice
  (\<open>table_is_slice_of_bubble_without_ties\<close>).  With the tied rows of the snapshot above, the
  run for the table may return them in one order and the run for the bubble set in the other:
  then the first row of the page is not the first row of the bubble set.  The same happens on
  every snapshot whose leading rows tie (\<open>table_page_differs_when_leading_rows_tie\<close>).
\<close>

theorem table_page_differs_from_bubble_slice:
  "ranked default_constants shared_snapshot no_filters first_page
     [shared_row 2 ''y'', shared_row 1 ''x'']
   \<and> ranked default_constants shared_snapshot no_filters first_page
     [shared_row 1 ''x'', shared_row 2 ''y'']
   \<and> \<not> isl (getOpportunitiesData default_constants first_page
          [shared_row 2 ''y'', shared_row 1 ''x''] [shared_row 1 ''x'', shared_row 2 ''y''])
   \<and> t_rows (table (projr (getOpportunitiesData default_constants first_page
          [shared_row 2 ''y'', shared_row 1 ''x''] [shared_row 1 ''x'', shared_row 2 ''y''])))
      \<noteq> take 20 (drop 0 (bubble_points (projr (getOpportunitiesData default_constants first_page
          [shared_row 2 ''y'', shared_row 1 ''x''] [shared_row 1 ''x'', shared_row 2 ''y'']))))"
proof -
  have g: "getOpportunitiesData default_constants first_page
             [shared_row 2 ''y'', shared_row 1 ''x''] [shared_row 1 ''x'', shared_row 2 ''y'']
           = Inr \<lparr>bubble_points = [shared_row 1 ''x'', shared_row 2 ''y''],
                  table = \<lparr>t_page = 1, t_pageSize = 20, t_total = 2,
                           t_rows = [shared_row 2 ''y'', shared_row 1 ''x'']\<rparr>\<rparr>"
    by (simp add: getOpportunitiesData_def table_query_def bubble_query_def
        scoped_def sql_limit_offset_def first_page_def default_constants_def)
  show ?thesis
    unfolding g using shared_rows_differ shared_ranked_either by simp
qed

subsection \<open>Total of the table\<close>

text \<open>
  Claim C10: the field \<^verbatim>\<open>table.total\<close> of the response is the number of rows of the bubble
  set, that is the smaller of \<^verbatim>\<open>limit\<close> and the number of candidate rows, hence at most
  \<^verbatim>\<open>limit\<close>; and a page beyond \<open>\<lceil>total / page_size\<rceil>\<close> has no rows, whatever the number of
  candidate rows beyond the limit.
\<close>

theorem table_total_is_bubble_size:
  assumes "ranked k snap f params ordered_for_table"
    and "ranked k snap f params ordered_for_bubble"
    and "1 \<le> page params" "0 \<le> limit params" "0 < DEFAULT_TABLE_PAGE_SIZE k"
  shows "\<exists>d. getOpportunitiesData k params ordered_for_table ordered_for_bubble = Inr d
           \<and> t_total (table d) = int (length (bubble_points d))
           \<and> t_total (table d) = min (limit params) (int (length (final k snap f)))
           \<and> t_total (table d) \<le> limit params
           \<and> (\<lceil>real_of_int (t_total (table d)) / real_of_int (DEFAULT_TABLE_PAGE_SIZE k)\<rceil>
                 < page params \<longrightarrow> t_rows (table d) = [])"
proof -
  let ?ps = "DEFAULT_TABLE_PAGE_SIZE k"
  let ?n = "length (final k snap f)"
  let ?total = "int (length (take (nat (limit params)) ordered_for_bubble))"
  have lt: "length ordered_for_table = ?n" and lb: "length ordered_for_bubble = ?n"
    using assms(1,2) length_ranked by blast+
  have total: "?total = min (limit params) (int ?n)"
  proof -
    have "length (take (nat (limit params)) ordered_for_bubble) = min (nat (limit params)) ?n"
      using lb by simp
    then show ?thesis using assms(4) by linarith
  qed
  have empty: "take (nat ?ps) (drop (nat ((page params - 1) * ?ps))
                 (take (nat (limit params)) ordered_for_table)) = []"
    if past: "\<lceil>real_of_int ?total / real_of_int ?ps\<rceil> < page params"
  proof -
    have "real_of_int ?total / real_of_int ?ps \<le> real_of_int (page params - 1)"
      using past by (metis ceiling_le_iff zle_diff1_eq)
    then have "real_of_int ?total \<le> real_of_int (page params - 1) * real_of_int ?ps"
      using assms(5) by (simp add: pos_divide_le_eq)
    then have "?total \<le> (page params - 1) * ?ps"
      by (metis of_int_le_iff of_int_mult)
    moreover have "length (take (nat (limit params)) ordered_for_table) = nat ?total"
      using lt lb by simp
    ultimately show ?thesis by simp
  qed
  show ?thesis
    using getOpportunitiesData_ok[of params k ordered_for_table ordered_for_bubble] assms(3,4,5)
      total empty by simp
qed

text \<open>
  Claim C10 on the snapshot with two candidate rows, limit 1 and page 2: the total is 1 and the
  page is empty although a second candidate exists.
\<close>

theorem table_total_is_bubble_size_witness:
  "ranked default_constants pair_snapshot no_filters second_page_limit_one
     (order_by (precedes (buildOrderByClause second_page_limit_one))
        (final default_constants pair_snapshot no_filters))
   \<and> 1 \<le> page second_page_limit_one \<and> 0 \<le> limit second_page_limit_one
   \<and> 0 < DEFAULT_TABLE_PAGE_SIZE default_constants
   \<and> length (final default_constants pair_snapshot no_filters) = 2
   \<and> (\<exists>d. getOpportunitiesData default_constants second_page_limit_one
              (order_by (precedes (buildOrderByClause second_page_limit_one))
                 (final default_constants pair_snapshot no_filters))
              (order_by (precedes (buildOrderByClause second_page_limit_one))
                 (final default_constants pair_snapshot no_filters)) = Inr d
          \<and> t_total (table d) = 1 \<and> t_rows (table d) = [])"
proof -
  let ?rows = "final default_constants pair_snapshot no_filters"
  let ?s = "order_by (precedes (buildOrderByClause second_page_limit_one)) ?rows"
  have r: "ranked default_constants pair_snapshot no_filters second_page_limit_one ?s"
    by (rule ranked_order_by)
  have p: "1 \<le> page second_page_limit_one" "0 \<le> limit second_page_limit_one"
    "0 < DEFAULT_TABLE_PAGE_SIZE default_constants"
    by (simp_all add: second_page_limit_one_def default_constants_def)
  obtain d where d: "getOpportunitiesData default_constants second_page_limit_one ?s ?s = Inr d"
    "t_total (table d) = min (limit second_page_limit_one) (int (length ?rows))"
    "\<lceil>real_of_int (t_total (table d)) / real_of_int (DEFAULT_TABLE_PAGE_SIZE default_constants)\<rceil>
       < page second_page_limit_one \<longrightarrow> t_rows (table d) = []"
    using table_total_is_bubble_size[OF r r p] by blast
  have t: "t_total (table d) = 1"
    using d(2) by (simp add: length_final_pair second_page_limit_one_def)
  have "t_rows (table d) = []"
    using d(3) t by (simp add: second_page_limit_one_def default_constants_def)
  then show ?thesis using r p d(1) t length_final_pair by simp
qed

subsection \<open>Normalizer\<close>

text \<open>
  Claim C6 says that the rating-gap normalization is \<open>clamp(rating_gap / gap_cap, 0, 1)\<close> and
  saturates at 1 for gaps at or beyond the cap, for every percentile ceiling.  The query guards
  the division with \<^verbatim>\<open>coalesce(d.gap_cap, 0) > 0\<close>: with a cap of 0 (at least nine tenths of
  the candidate rows without a gap) a gap of 1 lies beyond the cap and is normalized to 0; on
  the snapshot with one extension in two categories the cap is 0 and both rows, whose gap is
  at the cap, are normalized to 0.
\<close>

theorem rating_gap_norm_zero_cap_counterexample:
  "(0::real) \<le> 1 \<and> rating_gap_norm 1 (Some 0) = 0 \<and> rating_gap_norm 1 (Some 0) \<noteq> 1
   \<and> gap_cap (distribution_from default_constants shared_snapshot
         (pipeline_filtered shared_snapshot no_filters)) = Some 0
   \<and> map rating_gap (final default_constants shared_snapshot no_filters) = [0, 0]
   \<and> map n_rating_gap_norm (normalized_from default_constants shared_snapshot
         (pipeline_filtered shared_snapshot no_filters)) = [0, 0]"
  by (simp add: rating_gap_norm_def final_shared shared_row_def)
    (simp add: stage_defs cte_defs shared_snapshot_def no_filters_def default_constants_def)

text \<open>
  Claim C6 as amended.  For a ceiling \<open>p > 0\<close> the log normalization is
  \<open>clamp(ln(v + 1) / ln(p + 1), 0, 1)\<close>; it is non-decreasing in \<open>v \<ge> 0\<close>, lies in \<open>[0, 1]\<close>
  and is 0 for the ceiling 0 and for a missing ceiling.  For a cap \<open>> 0\<close> the rating-gap
  normalization is the linear \<open>clamp(rating_gap / cap, 0, 1)\<close> and is 1 for every gap at or
  beyond the cap; it is non-decreasing in the gap and lies in \<open>[0, 1]\<close> for every cap; for a
  cap \<open>\<le> 0\<close> and for a missing cap it is 0 for every gap.
\<close>

theorem normalizer_bounded_monotone:
  "(0 < p \<longrightarrow> log_norm v (Some p) = min (max (ln (v + 1) / ln (p + 1)) 0) 1)
   \<and> (0 \<le> v \<and> v \<le> w \<longrightarrow> log_norm v q \<le> log_norm w q)
   \<and> 0 \<le> log_norm v q \<and> log_norm v q \<le> 1
   \<and> log_norm v (Some 0) = 0 \<and> log_norm v None = 0
   \<and> (0 < cap \<longrightarrow> rating_gap_norm g (Some cap) = min (max (g / cap) 0) 1)
   \<and> (0 < cap \<and> cap \<le> g \<longrightarrow> rating_gap_norm g (Some cap) = 1)
   \<and> (g \<le> h \<longrightarrow> rating_gap_norm g c \<le> rating_gap_norm h c)
   \<and> 0 \<le> rating_gap_norm g c \<and> rating_gap_norm g c \<le> 1
   \<and> (cap \<le> 0 \<longrightarrow> rating_gap_norm g (Some cap) = 0) \<and> rating_gap_norm g None = 0"
  using log_norm_bounds[of v q] log_norm_mono[of v w q] rating_gap_norm_bounds[of g c]
    rating_gap_norm_mono[of g h c] rating_gap_norm_saturates[of cap g]
  by (simp add: log_norm_def rating_gap_norm_def)

text \<open>The amended claim C6 at the ceiling 9 and at the cap 2.\<close>

theorem normalizer_bounded_monotone_witness:
  "(0::real) < 9 \<and> (0::real) \<le> 0 \<and> (0::real) \<le> 9
   \<and> log_norm 0 (Some 9) \<le> log_norm 9 (Some 9)
   \<and> log_norm 0 (Some 9) = 0 \<and> log_norm 9 (Some 9) = 1
   \<and> (0::real) < 2 \<and> (2::real) \<le> 3 \<and> rating_gap_norm 3 (Some 2) = 1
   \<and> rating_gap_norm 1 (Some 2) = 1 / 2
   \<and> rating_gap_norm 1 (Some 2) \<le> rating_gap_norm 3 (Some 2)"
  using normalizer_bounded_monotone[of 9 0 9 "Some 9" 2 3 3 "Some 2"]
    normalizer_bounded_monotone[of 9 9 9 "Some 9" 2 1 3 "Some 2"]
  by simp

subsection \<open>Users histogram\<close>

text \<open>
  Claim C9 says that the users histogram puts an extension with \<open>u \<ge> 1\<close> users into the decade
  bucket \<open>[10^(k-1), 10^k - 1]\<close> that contains \<open>u\<close>.  The query computes the bucket of
  \<open>u \<ge> 10\<close> as \<^verbatim>\<open>floor(ln(u) / ln(10)) + 1\<close> on \<^verbatim>\<open>double precision\<close>.  In exact arithmetic
  this is the decade of \<open>u\<close> (\<open>users_bucket_exact_ln\<close>), and 0, 7 and 250 users fall into
  \<open>[0, 0]\<close>, \<open>[1, 9]\<close> and \<open>[100, 999]\<close>.  For every logarithm \<open>dln\<close> that has the binary64
  values at 1000 and at 10, the quotient at \<open>u = 1000\<close> is below 3 (the binary64 quotient is
  2.9999999999999996): the extension is counted in the bucket \<open>[100, 999]\<close>, which does not
  contain 1000.
\<close>

theorem users_bucket_thousand_rounding:
  assumes "dln 1000 = binary64_ln_1000" and "dln 10 = binary64_ln_10"
  shows "map cex_users (category_extensions_view thousand_snapshot no_filters 1) = [1000]
   \<and> users_bucket dln 1000 = 3
   \<and> users_histogram dln (category_extensions_view thousand_snapshot no_filters 1)
       = [\<lparr>bucket_start = 100, bucket_end = 999, item_count = 1\<rparr>]
   \<and> \<not> (1000 \<le> bucket_end_of (users_bucket dln 1000))"
proof -
  have "\<lfloor>(243045032034301 / 35184372088832) / (2592480341699211 / 1125899906842624 :: real)\<rfloor> = 2"
    by (simp add: floor_eq_iff)
  then have b: "users_bucket dln 1000 = 3"
    by (simp add: users_bucket_def assms binary64_ln_1000_def binary64_ln_10_def)
  have u: "map cex_users (category_extensions_view thousand_snapshot no_filters 1) = [1000]"
    by (simp add: category_extensions_view_def category_stats_def cex_of_def pipeline_filtered_def
        cte_defs thousand_snapshot_def no_filters_def)
  have h: "users_histogram dln (category_extensions_view thousand_snapshot no_filters 1)
       = [\<lparr>bucket_start = 100, bucket_end = 999, item_count = 1\<rparr>]"
    using arg_cong[OF u, of "map (users_bucket dln)"]
    by (simp add: users_histogram_def b o_def bucket_start_of_def bucket_end_of_def)
  show ?thesis using u b h by (simp add: bucket_end_of_def)
qed

text \<open>
  Claim C9 for a logarithm that is given at the two arguments the query evaluates for 1000
  users.
\<close>

theorem users_bucket_thousand_rounding_witness:
  "(\<lambda>x::real. if x = 10 then binary64_ln_10 else binary64_ln_1000) 1000 = binary64_ln_1000
   \<and> (\<lambda>x::real. if x = 10 then binary64_ln_10 else binary64_ln_1000) 10 = binary64_ln_10
   \<and> users_bucket (\<lambda>x::real. if x = 10 then binary64_ln_10 else binary64_ln_1000) 1000 = 3
   \<and> users_histogram (\<lambda>x::real. if x = 10 then binary64_ln_10 else binary64_ln_1000)
        (category_extensions_view thousand_snapshot no_filters 1)
       = [\<lparr>bucket_start = 100, bucket_end = 999, item_count = 1\<rparr>]"
  using users_bucket_thousand_rounding[of "\<lambda>x::real. if x = 10 then binary64_ln_10 else binary64_ln_1000"]
  by simp

subsection \<open>Filter parsing\<close>

text \<open>
  Claim C8 says that for every combination of query parameters
  \<^const>\<open>parseGlobalFilters\<close> returns filters without raising.  The parser floors a
  non-negative \<open>minUsers\<close> and sets no upper bound on it, and the check \<^verbatim>\<open>int()\<close> of the
  schema rejects an integer beyond \<open>2^53 - 1\<close>: for \<^verbatim>\<open>minUsers=1e20\<close> the call throws a
  \<^verbatim>\<open>ZodError\<close>, which the routes catch and answer with status 400.
\<close>

theorem parseGlobalFilters_throws_counterexample:
  "parseNumber sample_Number (huge_query ''minUsers'') = Some 100000000000000000000
   \<and> parseGlobalFilters sample_Number huge_query = Inl ZodError"
proof -
  have "parseGlobalFilters sample_Number huge_query =
     globalFiltersSchema_parse
       \<lparr>minUsers = 100000000000000000000, maxUsers = None, ratingMin = 0, ratingMax = 5,
        excludeTopPct = 0, lang = [], extName = []\<rparr>"
    unfolding parseGlobalFilters_def Let_def huge_number
    by (simp add: Math_floor_def huge_query_def get_or_empty_def trim_def)
  then show ?thesis
    using huge_number(1)
    by (simp add: globalFiltersSchema_parse_def globalFiltersSchema_def zod_int_def
        MAX_SAFE_INTEGER_def)
qed

text \<open>
  Claim C8 as amended.  Whatever \<^verbatim>\<open>Number\<close> makes of the values of the query string:
  when the floor of a non-negative \<open>minUsers\<close> or of a non-negative \<open>maxUsers\<close> is beyond
  \<open>2^53 - 1\<close> the parser throws a \<^verbatim>\<open>ZodError\<close>; otherwise it returns filters that satisfy
  the schema, in which \<open>minUsers\<close> is the floor of a non-negative value and 0 otherwise,
  \<open>maxUsers\<close> is the floor of a non-negative value that is not below \<open>minUsers\<close> and unset
  otherwise, \<open>ratingMin\<close> and \<open>ratingMax\<close> are the values clamped into \<open>[0, 5]\<close> (defaults 0
  and 5) and both reset to \<open>[0, 5]\<close> when the clamped range is inverted, \<open>excludeTopPct\<close> is
  an integral value clamped into \<open>[0, 50]\<close> and 0 otherwise, and \<open>lang\<close> and \<open>extName\<close> are
  trimmed; hence \<open>minUsers \<ge> 0\<close>, a set \<open>maxUsers\<close> is not below \<open>minUsers\<close>,
  \<open>0 \<le> ratingMin \<le> ratingMax \<le> 5\<close> and \<open>0 \<le> excludeTopPct \<le> 50\<close>.
\<close>

theorem parseGlobalFilters_clamps_or_throws:
  assumes "parseNumber Number (searchParams ''minUsers'') = minUsersRaw"
    and "parseNumber Number (searchParams ''maxUsers'') = maxUsersRaw"
    and "parseNumber Number (searchParams ''ratingMin'') = ratingMinRaw"
    and "parseNumber Number (searchParams ''ratingMax'') = ratingMaxRaw"
    and "parseNumber Number (searchParams ''excludeTopPct'') = excludeTopPctRaw"
    and "lo = (case ratingMinRaw of None \<Rightarrow> 0 | Some a \<Rightarrow> min (max a 0) 5)"
    and "hi = (case ratingMaxRaw of None \<Rightarrow> 5 | Some b \<Rightarrow> min (max b 0) 5)"
  shows
    "if (\<exists>x. minUsersRaw = Some x \<and> 0 \<le> x \<and> MAX_SAFE_INTEGER < of_int \<lfloor>x\<rfloor>)
        \<or> (\<exists>y. maxUsersRaw = Some y \<and> 0 \<le> y \<and> MAX_SAFE_INTEGER < of_int \<lfloor>y\<rfloor>)
     then parseGlobalFilters Number searchParams = Inl ZodError
     else (\<exists>f. parseGlobalFilters Number searchParams = Inr f
             \<and> globalFiltersSchema f
             \<and> minUsers f =
                 (case minUsersRaw of None \<Rightarrow> 0 | Some x \<Rightarrow> if 0 \<le> x then of_int \<lfloor>x\<rfloor> else 0)
             \<and> maxUsers f =
                 (case maxUsersRaw of None \<Rightarrow> None
                  | Some y \<Rightarrow> if 0 \<le> y \<and> minUsers f \<le> of_int \<lfloor>y\<rfloor>
                             then Some (of_int \<lfloor>y\<rfloor>) else None)
             \<and> ratingMin f = (if lo \<le> hi then lo else 0)
             \<and> ratingMax f = (if lo \<le> hi then hi else 5)
             \<and> excludeTopPct f =
                 (case excludeTopPctRaw of None \<Rightarrow> 0
                  | Some x \<Rightarrow> if of_int \<lfloor>x\<rfloor> = x then min (max x 0) 50 else 0)
             \<and> lang f = trim (case searchParams ''lang'' of None \<Rightarrow> [] | Some s \<Rightarrow> s)
             \<and> extName f = trim (case searchParams ''extName'' of None \<Rightarrow> [] | Some s \<Rightarrow> s)
             \<and> 0 \<le> minUsers f
             \<and> (\<forall>m. maxUsers f = Some m \<longrightarrow> minUsers f \<le> m)
             \<and> 0 \<le> ratingMin f \<and> ratingMin f \<le> ratingMax f \<and> ratingMax f \<le> 5
             \<and> 0 \<le> excludeTopPct f \<and> excludeTopPct f \<le> 50)"
proof -
  define mn where "mn = (case minUsersRaw of None \<Rightarrow> 0
                         | Some x \<Rightarrow> if 0 \<le> x then real_of_int \<lfloor>x\<rfloor> else 0)"
  define mx where "mx = (case maxUsersRaw of None \<Rightarrow> None
                         | Some y \<Rightarrow> if 0 \<le> y \<and> mn \<le> of_int \<lfloor>y\<rfloor>
                                    then Some (real_of_int \<lfloor>y\<rfloor>) else None)"
  define pct where "pct = (case excludeTopPctRaw of None \<Rightarrow> 0
                           | Some x \<Rightarrow> if of_int \<lfloor>x\<rfloor> = x then min (max x 0) 50 else 0)"
  define obj where "obj =
       \<lparr>minUsers = mn, maxUsers = mx,
        ratingMin = (if lo \<le> hi then lo else 0), ratingMax = (if lo \<le> hi then hi else 5),
        excludeTopPct = pct,
        lang = trim (case searchParams ''lang'' of None \<Rightarrow> [] | Some s \<Rightarrow> s),
        extName = trim (case searchParams ''extName'' of None \<Rightarrow> [] | Some s \<Rightarrow> s)\<rparr>"
  have p: "parseGlobalFilters Number searchParams = globalFiltersSchema_parse obj"
    unfolding obj_def mx_def pct_def
    by (rule parseGlobalFilters_object[OF assms(1-5) mn_def assms(6,7)])
  have lo: "0 \<le> lo \<and> lo \<le> 5" unfolding assms(6) by (cases ratingMinRaw) simp_all
  have hi: "0 \<le> hi \<and> hi \<le> 5" unfolding assms(7) by (cases ratingMaxRaw) simp_all
  have mn0: "0 \<le> mn" unfolding mn_def by (cases minUsersRaw) simp_all
  have mxge: "\<forall>m. mx = Some m \<longrightarrow> mn \<le> m"
    unfolding mx_def by (cases maxUsersRaw) (auto split: if_splits)
  have pint: "Number_isInteger pct \<and> 0 \<le> pct \<and> pct \<le> 50"
  proof (cases excludeTopPctRaw)
    case None
    then show ?thesis by (simp add: pct_def Number_isInteger_def)
  next
    case (Some x)
    show ?thesis
    proof (cases "of_int \<lfloor>x\<rfloor> = x")
      case True
      then have "Number_isInteger x" by (simp add: Number_isInteger_def)
      then show ?thesis using Some True isInteger_clamp[of x] by (simp add: pct_def)
    next
      case False
      then show ?thesis using Some by (simp add: pct_def Number_isInteger_def)
    qed
  qed
  have pz: "zod_int pct" using pint zod_int_small by blast
  let ?A = "\<exists>x. minUsersRaw = Some x \<and> 0 \<le> x \<and> MAX_SAFE_INTEGER < real_of_int \<lfloor>x\<rfloor>"
  let ?B = "\<exists>y. maxUsersRaw = Some y \<and> 0 \<le> y \<and> MAX_SAFE_INTEGER < real_of_int \<lfloor>y\<rfloor>"
  have zmn: "zod_int mn = (\<not> ?A)"
  proof (cases minUsersRaw)
    case None
    then show ?thesis by (simp add: mn_def zod_int_def Number_isInteger_def MAX_SAFE_INTEGER_def)
  next
    case (Some x)
    show ?thesis
    proof (cases "0 \<le> x")
      case True
      then show ?thesis using Some zod_int_floor[OF True] by (simp add: mn_def not_less)
    next
      case False
      then show ?thesis using Some
        by (simp add: mn_def zod_int_def Number_isInteger_def MAX_SAFE_INTEGER_def)
    qed
  qed
  have zmx: "\<not> ?A \<Longrightarrow> (case mx of None \<Rightarrow> True | Some m \<Rightarrow> zod_int m \<and> 0 \<le> m) = (\<not> ?B)"
  proof (cases maxUsersRaw)
    case None
    then show ?thesis by (simp add: mx_def)
  next
    case (Some y)
    assume nA: "\<not> ?A"
    have mnsafe: "mn \<le> MAX_SAFE_INTEGER"
      using nA zmn by (simp add: zod_int_def)
    show ?thesis
    proof (cases "0 \<le> y")
      case y0: True
      show ?thesis
      proof (cases "mn \<le> of_int \<lfloor>y\<rfloor>")
        case True
        then show ?thesis using Some y0 zod_int_floor[OF y0] by (simp add: mx_def not_less)
      next
        case False
        then have "real_of_int \<lfloor>y\<rfloor> \<le> MAX_SAFE_INTEGER" using mnsafe by linarith
        then show ?thesis using Some y0 False by (simp add: mx_def not_less)
      qed
    next
      case False
      then show ?thesis using Some by (simp add: mx_def)
    qed
  qed
  have schema: "globalFiltersSchema obj = (\<not> (?A \<or> ?B))"
  proof (cases ?A)
    case True
    then show ?thesis using zmn by (simp add: globalFiltersSchema_def obj_def)
  next
    case False
    then show ?thesis
      using zmn zmx[OF False] mn0 lo hi pz pint
      by (simp add: globalFiltersSchema_def obj_def)
  qed
  show ?thesis
  proof (cases "?A \<or> ?B")
    case True
    then have "parseGlobalFilters Number searchParams = Inl ZodError"
      using p schema by (simp add: globalFiltersSchema_parse_def)
    then show ?thesis using True by simp
  next
    case False
    then have r: "parseGlobalFilters Number searchParams = Inr obj" and s: "globalFiltersSchema obj"
      using p schema by (simp_all add: globalFiltersSchema_parse_def)
    have fields: "minUsers obj = mn" "maxUsers obj = mx" "excludeTopPct obj = pct"
      "ratingMin obj = (if lo \<le> hi then lo else 0)" "ratingMax obj = (if lo \<le> hi then hi else 5)"
      "lang obj = trim (case searchParams ''lang'' of None \<Rightarrow> [] | Some s \<Rightarrow> s)"
      "extName obj = trim (case searchParams ''extName'' of None \<Rightarrow> [] | Some s \<Rightarrow> s)"
      by (simp_all add: obj_def)
    have "\<exists>f. parseGlobalFilters Number searchParams = Inr f
             \<and> globalFiltersSchema f
             \<and> minUsers f = mn
             \<and> maxUsers f = (case maxUsersRaw of None \<Rightarrow> None
                  | Some y \<Rightarrow> if 0 \<le> y \<and> minUsers f \<le> of_int \<lfloor>y\<rfloor>
                             then Some (of_int \<lfloor>y\<rfloor>) else None)
             \<and> ratingMin f = (if lo \<le> hi then lo else 0)
             \<and> ratingMax f = (if lo \<le> hi then hi else 5)
             \<and> excludeTopPct f = pct
             \<and> lang f = trim (case searchParams ''lang'' of None \<Rightarrow> [] | Some s \<Rightarrow> s)
             \<and> extName f = trim (case searchParams ''extName'' of None \<Rightarrow> [] | Some s \<Rightarrow> s)
             \<and> 0 \<le> minUsers f
             \<and> (\<forall>m. maxUsers f = Some m \<longrightarrow> minUsers f \<le> m)
             \<and> 0 \<le> ratingMin f \<and> ratingMin f \<le> ratingMax f \<and> ratingMax f \<le> 5
             \<and> 0 \<le> excludeTopPct f \<and> excludeTopPct f \<le> 50"
      apply (rule exI[of _ obj])
      unfolding fields
      using r s mn0 mxge lo hi pint
      by (simp add: mx_def)
    then show ?thesis unfolding mn_def pct_def if_not_P[OF False] .
  qed
qed

text \<open>
  The amended claim C8 on three query strings: one whose values are floored, clamped and
  trimmed, the one with \<^verbatim>\<open>minUsers=100000&maxUsers=50\<close> and an inverted rating range, and
  the one with \<^verbatim>\<open>minUsers=1e20\<close>.
\<close>

theorem parseGlobalFilters_clamps_or_throws_witness:
  "parseNumber sample_Number (clamped_query ''minUsers'') = Some (109 / 10)
   \<and> parseNumber sample_Number (clamped_query ''maxUsers'') = Some (5007 / 10)
   \<and> parseNumber sample_Number (clamped_query ''ratingMin'') = Some (- 1)
   \<and> parseNumber sample_Number (clamped_query ''ratingMax'') = Some (9 / 2)
   \<and> parseNumber sample_Number (clamped_query ''excludeTopPct'') = Some 80
   \<and> (\<exists>f. parseGlobalFilters sample_Number clamped_query = Inr f
          \<and> minUsers f = 10 \<and> maxUsers f = Some 500 \<and> ratingMin f = 0 \<and> ratingMax f = 9 / 2
          \<and> excludeTopPct f = 50 \<and> lang f = ascii ''de'' \<and> extName f = [])
   \<and> parseNumber sample_Number (sample_query ''minUsers'') = Some 100000
   \<and> parseNumber sample_Number (sample_query ''maxUsers'') = Some 50
   \<and> parseNumber sample_Number (sample_query ''ratingMin'') = Some (9 / 2)
   \<and> parseNumber sample_Number (sample_query ''ratingMax'') = Some 2
   \<and> parseNumber sample_Number (sample_query ''excludeTopPct'') = None
   \<and> (\<exists>f. parseGlobalFilters sample_Number sample_query = Inr f
          \<and> minUsers f = 100000 \<and> maxUsers f = None \<and> ratingMin f = 0 \<and> ratingMax f = 5
          \<and> excludeTopPct f = 0)
   \<and> parseNumber sample_Number (huge_query ''minUsers'') = Some 100000000000000000000
   \<and> parseGlobalFilters sample_Number huge_query = Inl ZodError"
proof -
  note c = parseGlobalFilters_clamps_or_throws[OF clamped_numbers refl refl]
  note s = parseGlobalFilters_clamps_or_throws[OF sample_numbers refl refl]
  note h = parseGlobalFilters_clamps_or_throws[OF huge_number refl refl]
  have fl: "\<lfloor>109 / 10 :: real\<rfloor> = 10" "\<lfloor>5007 / 10 :: real\<rfloor> = 500"
    by (simp_all add: floor_eq_iff)
  have tl: "trim (case clamped_query ''lang'' of None \<Rightarrow> [] | Some s \<Rightarrow> s) = ascii ''de''"
    "trim (case clamped_query ''extName'' of None \<Rightarrow> [] | Some s \<Rightarrow> s) = []"
    by (simp_all add: clamped_query_def trim_def is_space_def ascii_def)
  have nc: "\<not> ((\<exists>x. Some (109 / 10 :: real) = Some x \<and> 0 \<le> x \<and> MAX_SAFE_INTEGER < of_int \<lfloor>x\<rfloor>)
              \<or> (\<exists>y. Some (5007 / 10 :: real) = Some y \<and> 0 \<le> y \<and> MAX_SAFE_INTEGER < of_int \<lfloor>y\<rfloor>))"
    by (auto simp: fl MAX_SAFE_INTEGER_def)
  have ns: "\<not> ((\<exists>x. Some (100000 :: real) = Some x \<and> 0 \<le> x \<and> MAX_SAFE_INTEGER < of_int \<lfloor>x\<rfloor>)
              \<or> (\<exists>y. Some (50 :: real) = Some y \<and> 0 \<le> y \<and> MAX_SAFE_INTEGER < of_int \<lfloor>y\<rfloor>))"
    by (auto simp: MAX_SAFE_INTEGER_def)
  have yh: "(\<exists>x. Some (100000000000000000000 :: real) = Some x \<and> 0 \<le> x
                 \<and> MAX_SAFE_INTEGER < of_int \<lfloor>x\<rfloor>)
            \<or> (\<exists>y. (None :: real option) = Some y \<and> 0 \<le> y \<and> MAX_SAFE_INTEGER < of_int \<lfloor>y\<rfloor>)"
    by (auto simp: MAX_SAFE_INTEGER_def)
  have c': "\<exists>f. parseGlobalFilters sample_Number clamped_query = Inr f
          \<and> minUsers f = 10 \<and> maxUsers f = Some 500 \<and> ratingMin f = 0 \<and> ratingMax f = 9 / 2
          \<and> excludeTopPct f = 50 \<and> lang f = ascii ''de'' \<and> extName f = []"
    using c[unfolded if_not_P[OF nc]] by (auto simp: fl tl)
  have s': "\<exists>f. parseGlobalFilters sample_Number sample_query = Inr f
          \<and> minUsers f = 100000 \<and> maxUsers f = None \<and> ratingMin f = 0 \<and> ratingMax f = 5
          \<and> excludeTopPct f = 0"
    using s[unfolded if_not_P[OF ns]] by auto
  have h': "parseGlobalFilters sample_Number huge_query = Inl ZodError"
    using h[unfolded if_P[OF yh]] .
  show ?thesis using c' s' h' clamped_numbers sample_numbers huge_number(1) by simp
qed

subsection \<open>Top-Slice Excluder\<close>

text \<open>
  Claim C1 says that the excluder removes the first \<open>\<lceil>N \<times> exclude_top_pct / 100\<rceil>\<close> records of
  the filtered set ordered by users descending, \<open>N\<close> being the size of the filtered set.  The
  CTE \<^verbatim>\<open>top_excluded\<close> orders and counts \<^verbatim>\<open>extensions_base\<close>, the whole snapshot, and the
  filter predicates are applied afterwards.  With two extensions of 100 and 10 users,
  \<open>maxUsers = 50\<close> and \<open>exclude_top_pct = 50\<close> the query excludes the extension with 100 users and
  keeps the other one; cutting the slice from the filtered set would remove that one.
\<close>

theorem top_slice_of_filtered_set_counterexample:
  "map b_extension_id (pipeline_filtered pair_snapshot half_filters) = [2]
   \<and> spec_top_slice_excluder half_filters (extensions_base (extensions pair_snapshot)) = []"
proof -
  have c: "\<lceil>1 / 2 :: real\<rceil> = 1" by (simp add: ceiling_eq_iff)
  show ?thesis
    by (simp add: pipeline_filtered_def spec_top_slice_excluder_def cte_defs pair_snapshot_def
        half_filters_def no_filters_def c)
qed

text \<open>
  Claim C1 as amended.  For \<open>exclude_top_pct \<ge> 0\<close> the excluder removes the first
  \<open>\<lceil>N \<times> exclude_top_pct / 100\<rceil>\<close> records of the whole extension snapshot ordered by users
  descending, ties by id ascending, \<open>N\<close> being the size of the snapshot; the filtered set holds
  the remaining records that pass the filter predicates; \<open>exclude_top_pct = 0\<close> removes nothing;
  and the excluded records have no influence: the filtered set, the global prior, the category
  scores, the percentiles and the scored rows are those of the snapshot without the excluded
  records and without exclusion.
\<close>

theorem top_slice_excluded_from_snapshot:
  assumes "0 \<le> excludeTopPct f"
  shows "top_excluded f (extensions_base (extensions snap)) =
           map b_extension_id
             (take (nat \<lceil>real (length (extensions snap)) * excludeTopPct f / 100\<rceil>)
                (order_by users_desc_id_asc (extensions_base (extensions snap))))
     \<and> sorted_wrt users_desc_id_asc (order_by users_desc_id_asc (extensions_base (extensions snap)))
     \<and> mset (order_by users_desc_id_asc (extensions_base (extensions snap)))
         = mset (extensions_base (extensions snap))
     \<and> pipeline_filtered snap f =
         filter (\<lambda>b. b_extension_id b \<notin> set (top_excluded f (extensions_base (extensions snap)))
                      \<and> passes_filters f b)
           (extensions_base (extensions snap))
     \<and> (excludeTopPct f = 0 \<longrightarrow>
          top_excluded f (extensions_base (extensions snap)) = []
          \<and> pipeline_filtered snap f = filter (passes_filters f) (extensions_base (extensions snap)))
     \<and> pipeline_filtered (without_top_excluded snap f) (f\<lparr>excludeTopPct := 0\<rparr>)
         = pipeline_filtered snap f
     \<and> global_rating (pipeline_filtered (without_top_excluded snap f) (f\<lparr>excludeTopPct := 0\<rparr>))
         = global_rating (pipeline_filtered snap f)
     \<and> scores_from k (without_top_excluded snap f)
           (pipeline_filtered (without_top_excluded snap f) (f\<lparr>excludeTopPct := 0\<rparr>))
         = scores_from k snap (pipeline_filtered snap f)
     \<and> distribution_from k (without_top_excluded snap f)
           (pipeline_filtered (without_top_excluded snap f) (f\<lparr>excludeTopPct := 0\<rparr>))
         = distribution_from k snap (pipeline_filtered snap f)
     \<and> final k (without_top_excluded snap f) (f\<lparr>excludeTopPct := 0\<rparr>) = final k snap f"
proof -
  have lim: "top_excluded_limit (excludeTopPct f) (length (extensions_base (extensions snap)))
           = \<lceil>real (length (extensions snap)) * excludeTopPct f / 100\<rceil>"
    using assms by (auto simp: top_excluded_limit_def extensions_base_def)
  have sorted: "sorted_wrt users_desc_id_asc (order_by users_desc_id_asc (extensions_base (extensions snap)))"
    using sorted_order_by[of users_desc_id_asc] users_desc_id_asc_total users_desc_id_asc_trans
    by blast
  have top: "top_excluded f (extensions_base (extensions snap)) =
           map b_extension_id
             (take (nat \<lceil>real (length (extensions snap)) * excludeTopPct f / 100\<rceil>)
                (order_by users_desc_id_asc (extensions_base (extensions snap))))"
    using lim by (simp add: top_excluded_def)
  have filt: "pipeline_filtered snap f =
         filter (\<lambda>b. b_extension_id b \<notin> set (top_excluded f (extensions_base (extensions snap)))
                      \<and> passes_filters f b)
           (extensions_base (extensions snap))"
    by (simp add: pipeline_filtered_def filtered_extensions_def)
  have zero: "excludeTopPct f = 0 \<longrightarrow>
          top_excluded f (extensions_base (extensions snap)) = []
          \<and> pipeline_filtered snap f = filter (passes_filters f) (extensions_base (extensions snap))"
    by (simp add: top_excluded_zero pipeline_filtered_def filtered_extensions_def)
  have fin: "final k (without_top_excluded snap f) (f\<lparr>excludeTopPct := 0\<rparr>) = final k snap f"
    by (simp add: final_def pipeline_filtered_without downstream_without)
  show ?thesis
    using top sorted filt zero fin
    by (simp only: mset_order_by pipeline_filtered_without downstream_without simp_thms)
qed

text \<open>
  The amended claim C1 on the two extensions with \<open>maxUsers = 50\<close> and
  \<open>exclude_top_pct = 50\<close>: extension 1 is excluded, extension 2 is kept.
\<close>

theorem top_slice_excluded_from_snapshot_witness:
  "0 \<le> excludeTopPct half_filters
   \<and> top_excluded half_filters (extensions_base (extensions pair_snapshot)) = [1]
   \<and> map b_extension_id (pipeline_filtered pair_snapshot half_filters) = [2]
   \<and> final default_constants (without_top_excluded pair_snapshot half_filters)
        (half_filters\<lparr>excludeTopPct := 0\<rparr>)
      = final default_constants pair_snapshot half_filters"
proof -
  have h: "0 \<le> excludeTopPct half_filters" by (simp add: half_filters_def no_filters_def)
  note t = top_slice_excluded_from_snapshot[OF h, of pair_snapshot default_constants]
  have "top_excluded half_filters (extensions_base (extensions pair_snapshot)) =
         map b_extension_id
           (take (nat \<lceil>real (length (extensions pair_snapshot)) * excludeTopPct half_filters / 100\<rceil>)
              (order_by users_desc_id_asc (extensions_base (extensions pair_snapshot))))"
    using t by blast
  then have top: "top_excluded half_filters (extensions_base (extensions pair_snapshot)) = [1]"
    by (simp add: pair_snapshot_def half_filters_def no_filters_def extensions_base_def base_of_def
        order_by_def users_desc_id_asc_def)
  have "pipeline_filtered pair_snapshot half_filters =
         filter (\<lambda>b. b_extension_id b \<notin> set (top_excluded half_filters (extensions_base (extensions pair_snapshot)))
                      \<and> passes_filters half_filters b)
           (extensions_base (extensions pair_snapshot))"
    using t by blast
  then have ids: "map b_extension_id (pipeline_filtered pair_snapshot half_filters) = [2]"
    unfolding top
    by (simp add: pair_snapshot_def half_filters_def no_filters_def extensions_base_def base_of_def
        passes_filters_def)
  show ?thesis using h top ids t by blast
qed

subsection \<open>Rating gap\<close>

text \<open>
  Claim C2 says that \<open>rating_gap = max(category_avg_rating - extension_rating, 0)\<close>, never
  negative, for the candidate rows of the opportunities view and for the rows of the category
  explorer alike.  \<^verbatim>\<open>category_extensions_view\<close> computes \<^verbatim>\<open>cs.avg_rating - fe.rating\<close>
  without \<^verbatim>\<open>greatest\<close>; its chart clamps the value itself
  (\<^verbatim>\<open>Math.max(point.rating_gap ?? 0, 0)\<close>).  For an extension rated 4 in a category whose
  smoothed average is 3 the row of the category explorer has the gap \<open>- 1\<close>.
\<close>

theorem category_rating_gap_signed_counterexample:
  "map cex_rating (category_extensions_view pair_snapshot no_filters 1) = [Some 4, Some 2]
   \<and> cst_avg_rating (category_stats pair_snapshot
        (pipeline_filtered pair_snapshot no_filters) 1) = 3
   \<and> map cex_rating_gap (category_extensions_view pair_snapshot no_filters 1)
       = [Some (- 1), Some 1]"
  by (simp add: category_extensions_view_def category_stats_def cex_of_def pipeline_filtered_def
      cte_defs pair_snapshot_def no_filters_def)

text \<open>
  Claim C2 as amended.  Every row of the opportunities candidate set has a rating, its
  \<open>rating_gap\<close> is \<open>max(category_avg_rating - rating, 0)\<close> and is not negative, and a row rated
  at or above the smoothed average of its category has \<open>rating_gap = 0\<close> and
  \<open>gap_effective = 0\<close>.  Every row of the category explorer has a rating and its
  \<open>rating_gap\<close> is the signed difference \<open>avg_rating - rating\<close>.
\<close>

theorem rating_gap_of_candidates_and_category_rows:
  "(\<forall>r\<in>set (final k snap f).
      \<exists>x. rating r = Some x
        \<and> rating_gap r = max (category_avg_rating r - x) 0
        \<and> 0 \<le> rating_gap r
        \<and> (category_avg_rating r \<le> x \<longrightarrow> rating_gap r = 0 \<and> gap_effective r = 0))
   \<and> (\<forall>c\<in>set (category_extensions_view snap f categoryId).
      \<exists>x. cex_rating c = Some x
        \<and> cex_rating_gap c =
            Some (cst_avg_rating (category_stats snap (pipeline_filtered snap f) categoryId) - x))"
proof (intro conjI ballI)
  fix r assume "r \<in> set (final k snap f)"
  then obtain c where c: "c \<in> set (candidates_from k snap (pipeline_filtered snap f))"
    and r: "r = final_of k (normalized_of (distribution_from k snap (pipeline_filtered snap f)) c)"
    using final_mem by blast
  obtain fe cs where fe: "fe \<in> set (pipeline_filtered snap f)" and cc: "c = candidate_of fe cs"
    using c candidate_set_mem unfolding candidates_from_def by blast
  obtain x where x: "b_rating fe = Some x"
    using fe filtered_rated unfolding pipeline_filtered_def by blast
  show "\<exists>x. rating r = Some x
        \<and> rating_gap r = max (category_avg_rating r - x) 0
        \<and> 0 \<le> rating_gap r
        \<and> (category_avg_rating r \<le> x \<longrightarrow> rating_gap r = 0 \<and> gap_effective r = 0)"
    unfolding r final_of_fields cc
    using x by (simp add: candidate_of_def greatest_gap_def rating_gap_norm_zero)
next
  fix c assume "c \<in> set (category_extensions_view snap f categoryId)"
  then obtain fe e where fe: "fe \<in> set (pipeline_filtered snap f)"
    and c: "c = cex_of (category_stats snap (pipeline_filtered snap f) categoryId) fe e"
    using cex_mem by blast
  obtain x where x: "b_rating fe = Some x"
    using fe filtered_rated unfolding pipeline_filtered_def by blast
  show "\<exists>x. cex_rating c = Some x
        \<and> cex_rating_gap c =
            Some (cst_avg_rating (category_stats snap (pipeline_filtered snap f) categoryId) - x)"
    unfolding c using x by (simp add: cex_of_def)
qed

text \<open>
  The amended claim C2 on the two extensions rated 4 and 2 in a category with smoothed
  average 3.
\<close>

theorem rating_gap_of_candidates_and_category_rows_witness:
  "hd (final default_constants pair_snapshot no_filters)
     \<in> set (final default_constants pair_snapshot no_filters)
   \<and> rating (hd (final default_constants pair_snapshot no_filters)) = Some 4
   \<and> category_avg_rating (hd (final default_constants pair_snapshot no_filters)) \<le> 4
   \<and> rating_gap (hd (final default_constants pair_snapshot no_filters)) = 0
   \<and> gap_effective (hd (final default_constants pair_snapshot no_filters)) = 0
   \<and> hd (category_extensions_view pair_snapshot no_filters 1)
     \<in> set (category_extensions_view pair_snapshot no_filters 1)
   \<and> cex_rating (hd (category_extensions_view pair_snapshot no_filters 1)) = Some 4
   \<and> cex_rating_gap (hd (category_extensions_view pair_snapshot no_filters 1))
       = Some (cst_avg_rating (category_stats pair_snapshot
                 (pipeline_filtered pair_snapshot no_filters) 1) - 4)"
proof -
  let ?r = "hd (final default_constants pair_snapshot no_filters)"
  let ?c = "hd (category_extensions_view pair_snapshot no_filters 1)"
  note t = rating_gap_of_candidates_and_category_rows[of default_constants pair_snapshot no_filters 1]
  have m: "?r \<in> set (final default_constants pair_snapshot no_filters)"
    and r4: "rating ?r = Some 4" and avg: "category_avg_rating ?r \<le> 4"
    by (simp_all add: final_pair)
  obtain x where x: "rating ?r = Some x"
    "category_avg_rating ?r \<le> x \<longrightarrow> rating_gap ?r = 0 \<and> gap_effective ?r = 0"
    using t m by blast
  have g: "rating_gap ?r = 0 \<and> gap_effective ?r = 0" using x r4 avg by simp
  have ids: "map cex_extension_id (category_extensions_view pair_snapshot no_filters 1) = [1, 2]"
    and cr: "cex_rating ?c = Some 4"
    by (simp_all add: category_extensions_view_def category_stats_def cex_of_def
        pipeline_filtered_def cte_defs pair_snapshot_def no_filters_def)
  have "category_extensions_view pair_snapshot no_filters 1 \<noteq> []" using ids by auto
  then have mc: "?c \<in> set (category_extensions_view pair_snapshot no_filters 1)" by simp
  obtain y where y: "cex_rating ?c = Some y"
    "cex_rating_gap ?c = Some (cst_avg_rating (category_stats pair_snapshot
                 (pipeline_filtered pair_snapshot no_filters) 1) - y)"
    using t mc by blast
  show ?thesis using m r4 avg g mc cr y by simp
qed

subsection \<open>Scorer\<close>

text \<open>
  Claim C5: for every scored candidate row, \<open>gap_effective\<close> is the product of the normalized
  rating gap and \<open>confidence_norm\<close>, and \<open>score = SCALE \<times> (W_demand \<times> demand_norm + W_gap \<times>
  gap_effective + W_inv_comp \<times> (1 - competition_norm))\<close>; with the configured constants this is
  \<open>100 \<times> (0.45 \<times> demand_norm + 0.35 \<times> gap_effective + 0.20 \<times> (1 - competition_norm))\<close>.
\<close>

theorem score_is_weighted_sum:
  assumes "r \<in> set (final k snap f)"
  shows "gap_effective r =
           rating_gap_norm (rating_gap r) (gap_cap (distribution_from k snap (pipeline_filtered snap f)))
             * confidence_norm r
       \<and> score r =
           OPPORTUNITIES_SCORE_SCALE k *
             (OPPORTUNITIES_SCORE_DEMAND_WEIGHT k * demand_norm r
              + OPPORTUNITIES_SCORE_GAP_WEIGHT k * gap_effective r
              + OPPORTUNITIES_SCORE_INVERSE_COMPETITION_WEIGHT k * (1 - competition_norm r))
       \<and> (k = default_constants \<longrightarrow>
            score r = 100 * (45 / 100 * demand_norm r + 35 / 100 * gap_effective r
                             + 20 / 100 * (1 - competition_norm r)))"
proof -
  obtain c where "r = final_of k (normalized_of (distribution_from k snap (pipeline_filtered snap f)) c)"
    using final_mem[OF assms] by blast
  then show ?thesis
    by (simp add: final_of_fields default_constants_def)
qed

text \<open>
  Claim C5 on the second row of the snapshot with two extensions.
\<close>

theorem score_is_weighted_sum_witness:
  "last (final default_constants pair_snapshot no_filters)
     \<in> set (final default_constants pair_snapshot no_filters)
   \<and> gap_effective (last (final default_constants pair_snapshot no_filters)) = 1
   \<and> demand_norm (last (final default_constants pair_snapshot no_filters)) = ln 11 / ln (193 / 2)
   \<and> competition_norm (last (final default_constants pair_snapshot no_filters)) = 1
   \<and> score (last (final default_constants pair_snapshot no_filters))
       = 100 * (45 / 100 * (ln 11 / ln (193 / 2)) + 35 / 100 * 1 + 20 / 100 * (1 - 1))"
proof -
  let ?r = "last (final default_constants pair_snapshot no_filters)"
  have m: "?r \<in> set (final default_constants pair_snapshot no_filters)"
    by (simp add: final_pair)
  have v: "gap_effective ?r = 1" "demand_norm ?r = ln 11 / ln (193 / 2)" "competition_norm ?r = 1"
    by (simp_all add: final_pair)
  have "score ?r = 100 * (45 / 100 * demand_norm ?r + 35 / 100 * gap_effective ?r
                          + 20 / 100 * (1 - competition_norm ?r))"
    using score_is_weighted_sum[OF m] by blast
  then show ?thesis using m v by simp
qed

subsection \<open>Aggregators\<close>

text \<open>
  Claim C7: over the filtered set after exclusion, in which every record has a rating, the
  global prior is \<open>\<Sum>(rating \<times> rating_votes) / \<Sum>(rating_votes)\<close> over the records with
  \<open>rating_votes > 0\<close>, and 0 when the weight sum is not positive.  With the link table keyed by
  \<open>(category_id, extension_id)\<close>, a category has a row in \<^verbatim>\<open>category_scores\<close> exactly when the
  link table attaches a surviving record to it; the row carries the category's id and name and
  the number of distinct surviving extensions attached to it, which is positive.  With \<open>W\<close> the
  sum of \<open>rating_votes\<close> and \<open>S\<close> the sum of \<open>rating \<times> rating_votes\<close> over the surviving records
  with \<open>rating_votes > 0\<close> that the link table attaches to the category, its smoothed average is
  \<open>W / (W + K) \<times> (S / W) + K / (W + K) \<times> global\<close> when \<open>W\<close> is positive, and is exactly the
  global average when \<open>W = 0\<close>.
\<close>

theorem bayesian_smoothed_averages:
  assumes "fe = pipeline_filtered snap f"
    and "distinct (category_extensions snap)"
  shows "(\<forall>r\<in>set fe. \<exists>x. b_rating r = Some x \<and> rating_times_votes r = x * b_rating_votes r)
     \<and> global_rating fe =
         (if 0 < sum_list (map b_rating_votes (filter (\<lambda>r. 0 < b_rating_votes r) fe))
          then sum_list (map rating_times_votes (filter (\<lambda>r. 0 < b_rating_votes r) fe))
               / sum_list (map b_rating_votes (filter (\<lambda>r. 0 < b_rating_votes r) fe))
          else 0)
     \<and> (\<forall>c\<in>set (categories snap).
          (\<exists>r\<in>set fe. \<lparr>ce_category_id = cat_id c, ce_extension_id = b_extension_id r\<rparr>
                          \<in> set (category_extensions snap))
          = (\<exists>cs\<in>set (scores_from k snap fe).
               cs_category_id cs = cat_id c \<and> cs_category_name cs = cat_name c))
     \<and> (\<forall>cs\<in>set (scores_from k snap fe).
          (\<exists>c\<in>set (categories snap).
              cat_id c = cs_category_id cs \<and> cat_name c = cs_category_name cs)
          \<and> cs_competition_count cs =
              int (card (b_extension_id `
                {r \<in> set fe. \<lparr>ce_category_id = cs_category_id cs,
                                ce_extension_id = b_extension_id r\<rparr>
                              \<in> set (category_extensions snap)}))
          \<and> 0 < cs_competition_count cs
          \<and> (\<forall>W S K.
                W = sum_list (map b_rating_votes
                      (filter (\<lambda>r. 0 < b_rating_votes r
                                 \<and> \<lparr>ce_category_id = cs_category_id cs,
                                     ce_extension_id = b_extension_id r\<rparr>
                                   \<in> set (category_extensions snap)) fe))
                \<and> S = sum_list (map rating_times_votes
                      (filter (\<lambda>r. 0 < b_rating_votes r
                                 \<and> \<lparr>ce_category_id = cs_category_id cs,
                                     ce_extension_id = b_extension_id r\<rparr>
                                   \<in> set (category_extensions snap)) fe))
                \<and> K = OPPORTUNITIES_BAYES_PRIOR_WEIGHT k
                \<longrightarrow> (0 < W \<longrightarrow> cs_category_avg_rating cs =
                                W / (W + K) * (S / W) + K / (W + K) * global_rating fe)
                    \<and> (W = 0 \<longrightarrow> cs_category_avg_rating cs = global_rating fe)))"
proof -
  let ?links = "category_extensions snap"
  let ?linked = "\<lambda>cid r. \<lparr>ce_category_id = cid, ce_extension_id = b_extension_id r\<rparr> \<in> set ?links"
  have rated: "\<And>r. r \<in> set fe \<Longrightarrow> \<exists>x. b_rating r = Some x"
    using assms(1) filtered_rated unfolding pipeline_filtered_def by blast
  have count: "\<And>cid. count_distinct (map b_extension_id (category_members ?links fe cid))
                 = int (card (b_extension_id ` {r \<in> set fe. ?linked cid r}))"
    by (simp add: count_distinct_card set_category_members[OF assms(2)])
  have pos: "\<And>cid. (0 < count_distinct (map b_extension_id (category_members ?links fe cid)))
                 = (\<exists>r\<in>set fe. ?linked cid r)"
    unfolding count using card_image_pos[of "{r \<in> set fe. ?linked cid r}" for cid] by auto
  have c1: "\<forall>r\<in>set fe. \<exists>x. b_rating r = Some x \<and> rating_times_votes r = x * b_rating_votes r"
  proof
    fix r assume "r \<in> set fe"
    then obtain x where x: "b_rating r = Some x" using rated by blast
    then have "rating_times_votes r = x * b_rating_votes r"
      by (simp add: rating_times_votes_def)
    with x show "\<exists>x. b_rating r = Some x \<and> rating_times_votes r = x * b_rating_votes r"
      by blast
  qed
  have c2: "global_rating fe =
         (if 0 < sum_list (map b_rating_votes (filter (\<lambda>r. 0 < b_rating_votes r) fe))
          then sum_list (map rating_times_votes (filter (\<lambda>r. 0 < b_rating_votes r) fe))
               / sum_list (map b_rating_votes (filter (\<lambda>r. 0 < b_rating_votes r) fe))
          else 0)"
    by (simp add: global_rating_def global_weighted_def weighted_sum_of_def global_weight_sum_of_def)
  have c3: "\<forall>c\<in>set (categories snap).
          (\<exists>r\<in>set fe. ?linked (cat_id c) r)
          = (\<exists>cs\<in>set (scores_from k snap fe).
               cs_category_id cs = cat_id c \<and> cs_category_name cs = cat_name c)"
  proof
    fix c assume c: "c \<in> set (categories snap)"
    show "(\<exists>r\<in>set fe. ?linked (cat_id c) r)
          = (\<exists>cs\<in>set (scores_from k snap fe).
               cs_category_id cs = cat_id c \<and> cs_category_name cs = cat_name c)"
    proof
      assume "\<exists>r\<in>set fe. ?linked (cat_id c) r"
      then have "0 < count_distinct (map b_extension_id (category_members ?links fe (cat_id c)))"
        using pos by simp
      then show "\<exists>cs\<in>set (scores_from k snap fe).
               cs_category_id cs = cat_id c \<and> cs_category_name cs = cat_name c"
        using scores_from_intro[OF c] by blast
    next
      assume "\<exists>cs\<in>set (scores_from k snap fe).
               cs_category_id cs = cat_id c \<and> cs_category_name cs = cat_name c"
      then obtain cs where cs: "cs \<in> set (scores_from k snap fe)" "cs_category_id cs = cat_id c"
        by blast
      have "0 < cs_competition_count cs" using scores_from_mem[OF cs(1)] by blast
      then have "0 < count_distinct (map b_extension_id (category_members ?links fe (cat_id c)))"
        using scores_from_origin(2)[OF cs(1)] cs(2) by simp
      then show "\<exists>r\<in>set fe. ?linked (cat_id c) r" using pos by simp
    qed
  qed
  have c4: "\<forall>cs\<in>set (scores_from k snap fe).
          (\<exists>c\<in>set (categories snap).
              cat_id c = cs_category_id cs \<and> cat_name c = cs_category_name cs)
          \<and> cs_competition_count cs =
              int (card (b_extension_id ` {r \<in> set fe. ?linked (cs_category_id cs) r}))
          \<and> 0 < cs_competition_count cs
          \<and> (\<forall>W S K.
                W = sum_list (map b_rating_votes
                      (filter (\<lambda>r. 0 < b_rating_votes r \<and> ?linked (cs_category_id cs) r) fe))
                \<and> S = sum_list (map rating_times_votes
                      (filter (\<lambda>r. 0 < b_rating_votes r \<and> ?linked (cs_category_id cs) r) fe))
                \<and> K = OPPORTUNITIES_BAYES_PRIOR_WEIGHT k
                \<longrightarrow> (0 < W \<longrightarrow> cs_category_avg_rating cs =
                                W / (W + K) * (S / W) + K / (W + K) * global_rating fe)
                    \<and> (W = 0 \<longrightarrow> cs_category_avg_rating cs = global_rating fe))"
  proof
    fix cs assume cs: "cs \<in> set (scores_from k snap fe)"
    let ?ms = "category_members ?links fe (cs_category_id cs)"
    have mrated: "\<forall>r\<in>set ?ms. \<exists>x. b_rating r = Some x"
      using category_members_subset rated by blast
    have W: "weight_sum_of ?ms = sum_list (map b_rating_votes
               (filter (\<lambda>r. 0 < b_rating_votes r \<and> ?linked (cs_category_id cs) r) fe))"
      unfolding weight_sum_of_rated[OF mrated]
      by (rule sums_of_category_members[OF assms(2)])
    have S: "weighted_sum_of ?ms = sum_list (map rating_times_votes
               (filter (\<lambda>r. 0 < b_rating_votes r \<and> ?linked (cs_category_id cs) r) fe))"
      unfolding weighted_sum_of_def
      by (rule sums_of_category_members[OF assms(2)])
    have avg: "cs_category_avg_rating cs =
        bayes_avg (OPPORTUNITIES_BAYES_PRIOR_WEIGHT k) (weighted_sum_of ?ms) (weight_sum_of ?ms)
          (global_rating fe)"
      and cpos: "0 < cs_competition_count cs"
      using scores_from_mem[OF cs] by simp_all
    have cnt: "cs_competition_count cs =
              int (card (b_extension_id ` {r \<in> set fe. ?linked (cs_category_id cs) r}))"
      using scores_from_origin(2)[OF cs] count by simp
    show "(\<exists>c\<in>set (categories snap).
              cat_id c = cs_category_id cs \<and> cat_name c = cs_category_name cs)
          \<and> cs_competition_count cs =
              int (card (b_extension_id ` {r \<in> set fe. ?linked (cs_category_id cs) r}))
          \<and> 0 < cs_competition_count cs
          \<and> (\<forall>W S K.
                W = sum_list (map b_rating_votes
                      (filter (\<lambda>r. 0 < b_rating_votes r \<and> ?linked (cs_category_id cs) r) fe))
                \<and> S = sum_list (map rating_times_votes
                      (filter (\<lambda>r. 0 < b_rating_votes r \<and> ?linked (cs_category_id cs) r) fe))
                \<and> K = OPPORTUNITIES_BAYES_PRIOR_WEIGHT k
                \<longrightarrow> (0 < W \<longrightarrow> cs_category_avg_rating cs =
                                W / (W + K) * (S / W) + K / (W + K) * global_rating fe)
                    \<and> (W = 0 \<longrightarrow> cs_category_avg_rating cs = global_rating fe))"
      using scores_from_origin(1)[OF cs] cnt cpos
      unfolding avg W S by (simp add: bayes_avg_def)
  qed
  show ?thesis using c1 c2 c3 c4 by blast
qed

text \<open>
  Claim C7 on three categories of one member each and a category without members: the global
  average is 3, the category of the extension rated 4 with 10 votes is smoothed to
  \<open>1504 / 501\<close>, the category whose member has no votes falls back to the global average, and
  the empty category has no row.
\<close>

theorem bayesian_smoothed_averages_witness:
  "distinct (category_extensions rated_snapshot)
   \<and> map cs_category_id (scores_from default_constants rated_snapshot
        (pipeline_filtered rated_snapshot no_filters)) = [1, 2, 3]
   \<and> global_rating (pipeline_filtered rated_snapshot no_filters) = 3
   \<and> cs_competition_count
        (hd (scores_from default_constants rated_snapshot
               (pipeline_filtered rated_snapshot no_filters))) = 1
   \<and> cs_category_avg_rating
        (hd (scores_from default_constants rated_snapshot
               (pipeline_filtered rated_snapshot no_filters)))
      = 10 / (10 + 5000) * (40 / 10) + 5000 / (10 + 5000) * 3
   \<and> cs_category_avg_rating
        (hd (scores_from default_constants rated_snapshot
               (pipeline_filtered rated_snapshot no_filters))) = 1504 / 501
   \<and> cs_category_avg_rating
        (last (scores_from default_constants rated_snapshot
               (pipeline_filtered rated_snapshot no_filters))) = 3"
proof -
  let ?fe = "pipeline_filtered rated_snapshot no_filters"
  let ?scores = "scores_from default_constants rated_snapshot ?fe"
  let ?links = "category_extensions rated_snapshot"
  note t = bayesian_smoothed_averages[OF refl scores_rated(3), where k = default_constants
      and f = no_filters]
  have ne: "?scores \<noteq> []" using scores_rated(1) by auto
  then have m: "hd ?scores \<in> set ?scores" and l: "last ?scores \<in> set ?scores" by simp_all
  have cid: "cs_category_id (hd ?scores) = 1" using scores_rated(1) ne by (simp add: hd_map[symmetric])
  have lid: "cs_category_id (last ?scores) = 3" using scores_rated(1) ne by (simp add: last_map[symmetric])
  have K: "OPPORTUNITIES_BAYES_PRIOR_WEIGHT default_constants = 5000"
    by (simp add: default_constants_def)
  have all: "\<forall>cs\<in>set ?scores.
          cs_competition_count cs =
              int (card (b_extension_id `
                {r \<in> set ?fe. \<lparr>ce_category_id = cs_category_id cs,
                                ce_extension_id = b_extension_id r\<rparr> \<in> set ?links}))
          \<and> (\<forall>W S K.
                W = sum_list (map b_rating_votes
                      (filter (\<lambda>r. 0 < b_rating_votes r
                                 \<and> \<lparr>ce_category_id = cs_category_id cs,
                                     ce_extension_id = b_extension_id r\<rparr> \<in> set ?links) ?fe))
                \<and> S = sum_list (map rating_times_votes
                      (filter (\<lambda>r. 0 < b_rating_votes r
                                 \<and> \<lparr>ce_category_id = cs_category_id cs,
                                     ce_extension_id = b_extension_id r\<rparr> \<in> set ?links) ?fe))
                \<and> K = OPPORTUNITIES_BAYES_PRIOR_WEIGHT default_constants
                \<longrightarrow> (0 < W \<longrightarrow> cs_category_avg_rating cs =
                                W / (W + K) * (S / W) + K / (W + K) * global_rating ?fe)
                    \<and> (W = 0 \<longrightarrow> cs_category_avg_rating cs = global_rating ?fe))"
    using t by blast
  have h: "cs_competition_count (hd ?scores) = 1
     \<and> cs_category_avg_rating (hd ?scores) = 10 / (10 + 5000) * (40 / 10) + 5000 / (10 + 5000) * 3"
    using bspec[OF all m] unfolding cid sums_rated members_rated K scores_rated(2) by simp
  have z: "cs_category_avg_rating (last ?scores) = 3"
    using bspec[OF all l] unfolding lid sums_rated K scores_rated(2) by simp
  show ?thesis using h z scores_rated by simp
qed

end
